theory Spec2Isabelle
  imports Main "HOL-Library.Word" "HOL-Library.Sublist"
begin

section \<open>The security report generator (scripts/generate-security-report.py)\<close>

text \<open>
  The script reads three scanner outputs (JSON files), accumulates normalised issues in
  the dictionary \<open>self.report_data\<close>, derives recommendations and renders an HTML
  report with a Jinja2 template. Everything below is a translation of that one file.
\<close>

subsection \<open>Python values\<close>

text \<open>
  What \<open>json.load\<close> returns. A Python \<open>str\<close> is a \<open>string\<close> with one \<open>char\<close>
  per code point, so the model covers text whose code points are below 256 (the pound
  sign of the source is \<open>CHR 0xA3\<close>). A Python \<open>int\<close> is unbounded; a \<open>float\<close> is
  carried as its 64 bits, since the script never computes with one. A \<open>dict\<close> is an
  association list in which the first binding of a key is the one that counts.
\<close>

datatype json =
    JNull
  | JBool bool
  | JInt int
  | JFloat "64 word"
  | JStr string
  | JList "json list"
  | JObj "(string \<times> json) list"

text \<open>The exceptions that the statements of the script can raise.\<close>

datatype py_error =
    FileNotFoundError
  | JSONDecodeError
  | KeyError
  | AttributeError
  | TypeError
  | IndexError
  | UndefinedError

text \<open>
  The outcome of \<open>with open(filepath, 'r') as f: data = json.load(f)\<close>: the file is
  absent, or it is not JSON, or it parses to a value. The files of the working directory
  are a function from paths to such outcomes.
\<close>

datatype file_read = NotFound | BadJSON | Parsed json

type_synonym files = "string \<Rightarrow> file_read"

text \<open>Sequencing of expressions that may raise: the first exception wins.\<close>

definition bnd :: "py_error + 'a \<Rightarrow> ('a \<Rightarrow> py_error + 'b) \<Rightarrow> py_error + 'b" where
  "bnd m f = (case m of Inl e \<Rightarrow> Inl e | Inr x \<Rightarrow> f x)"

text \<open>\<open>d.get(k, dflt)\<close>: only a dict has the method.\<close>

definition dict_get :: "json \<Rightarrow> string \<Rightarrow> json \<Rightarrow> py_error + json" where
  "dict_get d k dflt =
     (case d of
        JObj kvs \<Rightarrow> Inr (case map_of kvs k of None \<Rightarrow> dflt | Some v \<Rightarrow> v)
      | _ \<Rightarrow> Inl AttributeError)"

text \<open>
  \<open>v[k]\<close> with a string key: a dict raises KeyError on a missing key; a list, a string
  and every scalar raise TypeError.
\<close>

definition subscript :: "json \<Rightarrow> string \<Rightarrow> py_error + json" where
  "subscript v k =
     (case v of
        JObj kvs \<Rightarrow> (case map_of kvs k of None \<Rightarrow> Inl KeyError | Some x \<Rightarrow> Inr x)
      | _ \<Rightarrow> Inl TypeError)"

text \<open>\<open>v[k1][k2]\<close>.\<close>

definition subscript2 :: "json \<Rightarrow> string \<Rightarrow> string \<Rightarrow> py_error + json" where
  "subscript2 v k1 k2 = bnd (subscript v k1) (\<lambda>w. subscript w k2)"

text \<open>
  \<open>v[0]\<close>: the first element of a list or the first character of a string (IndexError
  when empty); a dict decoded from JSON has string keys only, so the key 0 is missing;
  a scalar is not subscriptable.
\<close>

definition subscript0 :: "json \<Rightarrow> py_error + json" where
  "subscript0 v =
     (case v of
        JList [] \<Rightarrow> Inl IndexError
      | JList (x # _) \<Rightarrow> Inr x
      | JStr [] \<Rightarrow> Inl IndexError
      | JStr (c # _) \<Rightarrow> Inr (JStr [c])
      | JObj _ \<Rightarrow> Inl KeyError
      | _ \<Rightarrow> Inl TypeError)"

text \<open>\<open>len(v)\<close>.\<close>

definition py_len :: "json \<Rightarrow> py_error + nat" where
  "py_len v =
     (case v of
        JList xs \<Rightarrow> Inr (length xs)
      | JStr s \<Rightarrow> Inr (length s)
      | JObj kvs \<Rightarrow> Inr (length (remdups (map fst kvs)))
      | _ \<Rightarrow> Inl TypeError)"

text \<open>
  The items that \<open>for x in v\<close> visits: the elements of a list, the keys of a dict, the
  characters of a string; a scalar is not iterable.
\<close>

definition py_iter :: "json \<Rightarrow> py_error + json list" where
  "py_iter v =
     (case v of
        JList xs \<Rightarrow> Inr xs
      | JStr s \<Rightarrow> Inr (map (\<lambda>c. JStr [c]) s)
      | JObj kvs \<Rightarrow> Inr (map JStr (remdups (map fst kvs)))
      | _ \<Rightarrow> Inl TypeError)"

text \<open>Truth value of a Python object, as \<open>if v\<close> tests it.\<close>

definition truthy :: "json \<Rightarrow> bool" where
  "truthy v =
     (case v of
        JNull \<Rightarrow> False
      | JBool b \<Rightarrow> b
      | JInt i \<Rightarrow> i \<noteq> 0
      | JFloat w \<Rightarrow> w \<noteq> 0 \<and> w \<noteq> 0x8000000000000000
      | JStr s \<Rightarrow> s \<noteq> []
      | JList xs \<Rightarrow> xs \<noteq> []
      | JObj kvs \<Rightarrow> kvs \<noteq> [])"

text \<open>Decimal text of an integer, as \<open>str\<close> prints it.\<close>

fun show_nat :: "nat \<Rightarrow> string" where
  "show_nat n =
     (if n < 10 then [char_of (48 + n)]
      else show_nat (n div 10) @ [char_of (48 + n mod 10)])"

declare show_nat.simps [simp del]

definition show_int :: "int \<Rightarrow> string" where
  "show_int i = (if i < 0 then CHR ''-'' # show_nat (nat (- i)) else show_nat (nat i))"

text \<open>
  \<open>str(v)\<close>, as an f-string and a template's \<open>{{ v }}\<close> apply it. The text of a
  float, a list or a dict is Python's own \<open>repr\<close>, which is not code of the script: it
  is the parameter \<open>rp\<close>.
\<close>

definition py_str :: "(json \<Rightarrow> string) \<Rightarrow> json \<Rightarrow> string" where
  "py_str rp v =
     (case v of
        JStr s \<Rightarrow> s
      | JInt i \<Rightarrow> show_int i
      | JBool b \<Rightarrow> (if b then ''True'' else ''False'')
      | JNull \<Rightarrow> ''None''
      | _ \<Rightarrow> rp v)"

text \<open>
  \<open>s.lower()\<close> on code points below 256: the letters A to Z, and the capital letters
  of the Latin-1 block (0xC0 to 0xDE without the multiplication sign 0xD7).
\<close>

definition lower_char :: "char \<Rightarrow> char" where
  "lower_char c =
     (let n = (of_char c :: nat)
      in if (65 \<le> n \<and> n \<le> 90) \<or> (192 \<le> n \<and> n \<le> 222 \<and> n \<noteq> 215)
         then char_of (n + 32) else c)"

definition lower :: "string \<Rightarrow> string" where
  "lower s = map lower_char s"

text \<open>\<open>s.replace(a, b)\<close> for one-character \<open>a\<close> and \<open>b\<close>.\<close>

definition replace_char :: "char \<Rightarrow> char \<Rightarrow> string \<Rightarrow> string" where
  "replace_char a b s = map (\<lambda>c. if c = a then b else c) s"

text \<open>\<open>s.split('.')[-1]\<close>: what follows the last dot, the whole string when there is none.\<close>

definition split_last :: "string \<Rightarrow> string" where
  "split_last s = rev (takeWhile (\<lambda>c. c \<noteq> CHR ''.'') (rev s))"

subsection \<open>The report data\<close>

text \<open>
  One entry of \<open>report_data['security_issues']\<close>; the keys \<open>type\<close> and \<open>file\<close> are
  \<open>issue_type\<close> and \<open>issue_file\<close> here.
\<close>

record issue =
  issue_type :: string
  severity :: json
  message :: json
  issue_file :: json
  line :: json
  rule_id :: json
  business_impact :: string
  remediation :: string

text \<open>
  The state that the methods of \<open>SecurityReportGenerator\<close> thread through a run: the
  keys of \<open>self.report_data\<close>, and the lines printed to standard output so far.
\<close>

record generator =
  scan_date :: string
  project_name :: string
  compliance_framework :: string
  total_files_scanned :: nat
  security_issues :: "issue list"
  compliance_status :: string
  risk_level :: string
  recommendations :: "string list"
  stdout :: "string list"

text \<open>
  A statement either completes or raises; in both cases the object is left in the state
  it had reached.
\<close>

datatype outcome = Done generator | Raised py_error generator

fun state_of :: "outcome \<Rightarrow> generator" where
  "state_of (Done g) = g"
| "state_of (Raised e g) = g"

definition print_line :: "string \<Rightarrow> generator \<Rightarrow> generator" where
  "print_line s g = g\<lparr>stdout := stdout g @ [s]\<rparr>"

text \<open>\<open>__init__\<close>; \<open>now\<close> is the formatted \<open>datetime.now()\<close>.\<close>

definition init :: "string \<Rightarrow> generator" where
  "init now =
     \<lparr>scan_date = now,
      project_name = ''GDPR-Compliant DevSecOps Pipeline'',
      compliance_framework = ''UK GDPR + DevSecOps Best Practices'',
      total_files_scanned = 0,
      security_issues = [],
      compliance_status = ''COMPLIANT'',
      risk_level = ''LOW'',
      recommendations = [],
      stdout = []\<rparr>"

subsection \<open>The lookup tables\<close>

text \<open>The dictionaries of \<open>_get_business_impact\<close> and \<open>_get_remediation_advice\<close>.\<close>

definition impact_map :: "(string \<times> string) list" where
  "impact_map =
     [(''hardcoded-personal-data'',
         ''GDPR Article 5 violation - ICO fine risk up to '' @ [CHR 0xA3] @ ''20M, reputational damage''),
      (''detect-pii-in-logs'',
         ''Data exposure in logs - breach notification requirement, compliance violation''),
      (''unencrypted-pii-storage'',
         ''Article 32 violation - data security inadequacy, audit failure risk''),
      (''missing-consent-check'',
         ''Article 6 violation - unlawful processing, subject access request complications''),
      (''missing-audit-log'',
         ''Article 30 violation - inability to demonstrate compliance during audit'')]"

definition remediation_map :: "(string \<times> string) list" where
  "remediation_map =
     [(''hardcoded-personal-data'',
         ''Remove hardcoded PII, use environment variables or secure configuration''),
      (''detect-pii-in-logs'',
         ''Implement PII filtering in logging, use structured logging with field redaction''),
      (''unencrypted-pii-storage'',
         ''Implement field-level encryption for sensitive data in database''),
      (''missing-consent-check'',
         ''Add consent validation before data processing operations''),
      (''missing-audit-log'',
         ''Implement comprehensive audit logging for all data operations'')]"

text \<open>
  \<open>impact_map.get(rule_id.split('.')[-1], ...)\<close>: only a string has \<open>split\<close>, any other
  rule id raises AttributeError.
\<close>

definition get_business_impact :: "json \<Rightarrow> py_error + string" where
  "get_business_impact rid =
     (case rid of
        JStr s \<Rightarrow>
          Inr (case map_of impact_map (split_last s) of
                 None \<Rightarrow> ''Potential compliance and security risk''
               | Some v \<Rightarrow> v)
      | _ \<Rightarrow> Inl AttributeError)"

definition get_remediation_advice :: "json \<Rightarrow> py_error + string" where
  "get_remediation_advice rid =
     (case rid of
        JStr s \<Rightarrow>
          Inr (case map_of remediation_map (split_last s) of
                 None \<Rightarrow> ''Review security best practices and implement appropriate controls''
               | Some v \<Rightarrow> v)
      | _ \<Rightarrow> Inl AttributeError)"

subsection \<open>The static-analysis loader\<close>

text \<open>The dict literal of the loop body; its values are evaluated in the order written.\<close>

definition semgrep_issue :: "json \<Rightarrow> py_error + issue" where
  "semgrep_issue result =
     bnd (subscript2 result ''extra'' ''severity'') (\<lambda>sev.
     bnd (subscript2 result ''extra'' ''message'') (\<lambda>msg.
     bnd (subscript result ''path'') (\<lambda>path.
     bnd (subscript2 result ''start'' ''line'') (\<lambda>ln.
     bnd (subscript result ''check_id'') (\<lambda>rid.
     bnd (bnd (subscript result ''check_id'') get_business_impact) (\<lambda>impact.
     bnd (bnd (subscript result ''check_id'') get_remediation_advice) (\<lambda>advice.
     Inr \<lparr>issue_type = ''GDPR Compliance Violation'',
          severity = sev,
          message = msg,
          issue_file = path,
          line = ln,
          rule_id = rid,
          business_impact = impact,
          remediation = advice\<rparr>)))))))"

text \<open>\<open>for result in data.get('results', [])\<close>: each issue is appended as it is built.\<close>

fun semgrep_issues :: "json list \<Rightarrow> generator \<Rightarrow> outcome" where
  "semgrep_issues [] g = Done g"
| "semgrep_issues (result # rest) g =
     (case semgrep_issue result of
        Inl e \<Rightarrow> Raised e g
      | Inr i \<Rightarrow> semgrep_issues rest (g\<lparr>security_issues := security_issues g @ [i]\<rparr>))"

text \<open>
  \<open>any(r['extra']['severity'] == 'ERROR' for r in ...)\<close>: stops at the first result
  whose severity is the string ERROR.
\<close>

fun any_error :: "json list \<Rightarrow> py_error + bool" where
  "any_error [] = Inr False"
| "any_error (r # rs) =
     (case subscript2 r ''extra'' ''severity'' of
        Inl e \<Rightarrow> Inl e
      | Inr s \<Rightarrow> if s = JStr ''ERROR'' then Inr True else any_error rs)"

text \<open>The \<open>if\<close>/\<open>elif\<close>/\<open>else\<close> under "Determine overall risk level".\<close>

definition semgrep_risk :: "json \<Rightarrow> generator \<Rightarrow> outcome" where
  "semgrep_risk data g =
     (case bnd (dict_get data ''results'' (JList [])) py_len of
        Inl e \<Rightarrow> Raised e g
      | Inr n \<Rightarrow>
          if n = 0 then Done (g\<lparr>risk_level := ''LOW'', compliance_status := ''COMPLIANT''\<rparr>)
          else
            (case bnd (dict_get data ''results'' (JList [])) (\<lambda>rs. bnd (py_iter rs) any_error) of
               Inl e \<Rightarrow> Raised e g
             | Inr True \<Rightarrow>
                 Done (g\<lparr>risk_level := ''HIGH'', compliance_status := ''NON-COMPLIANT''\<rparr>)
             | Inr False \<Rightarrow>
                 Done (g\<lparr>risk_level := ''MEDIUM'',
                          compliance_status := ''PARTIALLY COMPLIANT''\<rparr>)))"

text \<open>
  \<open>load_semgrep_results\<close>. The handlers catch FileNotFoundError and JSONDecodeError,
  which only \<open>open\<close> and \<open>json.load\<close> raise; whatever the rest of the body raises
  leaves the method.
\<close>

definition load_semgrep_results :: "files \<Rightarrow> string \<Rightarrow> generator \<Rightarrow> outcome" where
  "load_semgrep_results fs filepath g =
     (case fs filepath of
        NotFound \<Rightarrow> Done (print_line (''Semgrep results file not found: '' @ filepath) g)
      | BadJSON \<Rightarrow> Done (print_line (''Invalid JSON in Semgrep results: '' @ filepath) g)
      | Parsed data \<Rightarrow>
          (case bnd (dict_get data ''paths'' (JObj []))
                  (\<lambda>p. bnd (dict_get p ''scanned'' (JList [])) py_len) of
             Inl e \<Rightarrow> Raised e g
           | Inr n \<Rightarrow>
               (case bnd (dict_get data ''results'' (JList [])) py_iter of
                  Inl e \<Rightarrow> Raised e (g\<lparr>total_files_scanned := n\<rparr>)
                | Inr results \<Rightarrow>
                    (case semgrep_issues results (g\<lparr>total_files_scanned := n\<rparr>) of
                       Raised e g' \<Rightarrow> Raised e g'
                     | Done g' \<Rightarrow> semgrep_risk data g'))))"

subsection \<open>The secret-detection loader\<close>

definition gitleaks_issue :: "(json \<Rightarrow> string) \<Rightarrow> json \<Rightarrow> py_error + issue" where
  "gitleaks_issue rp finding =
     bnd (dict_get finding ''Description'' (JStr ''secret'')) (\<lambda>descr.
     bnd (dict_get finding ''File'' (JStr ''Unknown'')) (\<lambda>f.
     bnd (dict_get finding ''StartLine'' (JInt 0)) (\<lambda>ln.
     bnd (dict_get finding ''RuleID'' (JStr ''secret-detection'')) (\<lambda>rid.
     Inr \<lparr>issue_type = ''Secret/PII Exposure'',
          severity = JStr ''HIGH'',
          message = JStr (''Potential '' @ py_str rp descr @ '' detected''),
          issue_file = f,
          line = ln,
          rule_id = rid,
          business_impact =
            ''Data breach risk, ICO fine exposure (up to '' @ [CHR 0xA3] @ ''20M)'',
          remediation =
            ''Remove secret from code, rotate credentials, implement secrets management''\<rparr>))))"

text \<open>\<open>for finding in data\<close>: append the issue, then set the two status keys.\<close>

fun gitleaks_findings :: "(json \<Rightarrow> string) \<Rightarrow> json list \<Rightarrow> generator \<Rightarrow> outcome" where
  "gitleaks_findings rp [] g = Done g"
| "gitleaks_findings rp (finding # rest) g =
     (case gitleaks_issue rp finding of
        Inl e \<Rightarrow> Raised e g
      | Inr i \<Rightarrow>
          gitleaks_findings rp rest
            (g\<lparr>security_issues := security_issues g @ [i],
               risk_level := ''CRITICAL'',
               compliance_status := ''NON-COMPLIANT''\<rparr>))"

text \<open>
  \<open>except (json.JSONDecodeError, KeyError)\<close>, for an exception raised by the body
  after the file was parsed: a KeyError is caught and reported, the state staying as
  the body left it; any other exception leaves the method.
\<close>

definition catch_KeyError :: "string \<Rightarrow> outcome \<Rightarrow> outcome" where
  "catch_KeyError msg r =
     (case r of
        Raised e g \<Rightarrow> if e = KeyError then Done (print_line msg g) else Raised e g
      | Done g \<Rightarrow> Done g)"

definition load_gitleaks_results ::
  "(json \<Rightarrow> string) \<Rightarrow> files \<Rightarrow> string \<Rightarrow> generator \<Rightarrow> outcome" where
  "load_gitleaks_results rp fs filepath g =
     (case fs filepath of
        NotFound \<Rightarrow> Done (print_line (''GitLeaks results file not found: '' @ filepath) g)
      | BadJSON \<Rightarrow> Done (print_line (''Error parsing GitLeaks results: '' @ filepath) g)
      | Parsed data \<Rightarrow>
          catch_KeyError (''Error parsing GitLeaks results: '' @ filepath)
            (case py_iter data of
               Inl e \<Rightarrow> Raised e g
             | Inr findings \<Rightarrow> gitleaks_findings rp findings g))"

subsection \<open>The vulnerability loader\<close>

text \<open>\<open>v.get(k1, d1).get(k2, d2)\<close>.\<close>

definition dict_get2 :: "json \<Rightarrow> string \<Rightarrow> json \<Rightarrow> string \<Rightarrow> json \<Rightarrow> py_error + json" where
  "dict_get2 v k1 d1 k2 d2 = bnd (dict_get v k1 d1) (\<lambda>w. dict_get w k2 d2)"

text \<open>\<open>severity in ['HIGH', 'CRITICAL']\<close>.\<close>

definition high_or_critical :: "json \<Rightarrow> bool" where
  "high_or_critical sev = (sev = JStr ''HIGH'' \<or> sev = JStr ''CRITICAL'')"

text \<open>
  The conditional expression of the remediation text: the first listed fix version when
  \<open>vulnerability.fix\<close> is truthy, \<open>'latest'\<close> otherwise.
\<close>

definition fix_version :: "json \<Rightarrow> py_error + json" where
  "fix_version match =
     bnd (dict_get2 match ''vulnerability'' (JObj []) ''fix'' JNull) (\<lambda>fix.
       if truthy fix then
         bnd (dict_get2 match ''vulnerability'' (JObj []) ''fix'' (JObj [])) (\<lambda>fix'.
         bnd (dict_get fix' ''versions'' (JList [JStr ''latest''])) subscript0)
       else Inr (JStr ''latest''))"

definition vulnerability_issue ::
  "(json \<Rightarrow> string) \<Rightarrow> json \<Rightarrow> json \<Rightarrow> py_error + issue" where
  "vulnerability_issue rp match sev =
     bnd (dict_get2 match ''artifact'' (JObj []) ''name'' (JStr ''Unknown'')) (\<lambda>name.
     bnd (dict_get2 match ''vulnerability'' (JObj []) ''id'' (JStr ''vuln-scan'')) (\<lambda>rid.
     bnd (fix_version match) (\<lambda>version.
     Inr \<lparr>issue_type = ''Dependency Vulnerability'',
          severity = sev,
          message = JStr (''Vulnerable dependency: '' @ py_str rp name),
          issue_file = JStr ''package.json'',
          line = JInt 0,
          rule_id = rid,
          business_impact = ''Supply chain security risk, potential data exposure'',
          remediation = ''Update to version '' @ py_str rp version\<rparr>)))"

text \<open>\<open>for match in data.get('matches', [])\<close>.\<close>

fun vulnerability_matches :: "(json \<Rightarrow> string) \<Rightarrow> json list \<Rightarrow> generator \<Rightarrow> outcome" where
  "vulnerability_matches rp [] g = Done g"
| "vulnerability_matches rp (match # rest) g =
     (case dict_get2 match ''vulnerability'' (JObj []) ''severity'' (JStr ''UNKNOWN'') of
        Inl e \<Rightarrow> Raised e g
      | Inr sev \<Rightarrow>
          if high_or_critical sev then
            (case vulnerability_issue rp match sev of
               Inl e \<Rightarrow> Raised e g
             | Inr i \<Rightarrow>
                 vulnerability_matches rp rest
                   (g\<lparr>security_issues := security_issues g @ [i]\<rparr>))
          else vulnerability_matches rp rest g)"

definition load_vulnerability_scan ::
  "(json \<Rightarrow> string) \<Rightarrow> files \<Rightarrow> string \<Rightarrow> generator \<Rightarrow> outcome" where
  "load_vulnerability_scan rp fs filepath g =
     (case fs filepath of
        NotFound \<Rightarrow> Done (print_line (''Vulnerability scan results not found: '' @ filepath) g)
      | BadJSON \<Rightarrow> Done (print_line (''Error parsing vulnerability results: '' @ filepath) g)
      | Parsed data \<Rightarrow>
          catch_KeyError (''Error parsing vulnerability results: '' @ filepath)
            (case bnd (dict_get data ''matches'' (JList [])) py_iter of
               Inl e \<Rightarrow> Raised e g
             | Inr matches \<Rightarrow> vulnerability_matches rp matches g))"

subsection \<open>The recommender\<close>

text \<open>\<open>'GDPR' in issue['business_impact']\<close>: the substring test.\<close>

definition mentions_GDPR :: "issue \<Rightarrow> bool" where
  "mentions_GDPR i = sublist ''GDPR'' (business_impact i)"

definition high_severity_block :: "nat \<Rightarrow> string list" where
  "high_severity_block high_severity_count =
     [''IMMEDIATE ACTION: Address '' @ show_nat high_severity_count
        @ '' high/critical severity issues'',
      ''Implement mandatory security training for development team'',
      ''Review and strengthen code review processes'']"

definition gdpr_block :: "string list" where
  "gdpr_block =
     [''Schedule legal review of data processing practices'',
      ''Conduct GDPR compliance training for technical teams'',
      ''Implement Data Protection Impact Assessment (DPIA) process'']"

definition default_block :: "string list" where
  "default_block =
     [''Continue current security practices'',
      ''Consider implementing additional monitoring for runtime security'',
      ''Schedule quarterly security reviews to maintain compliance posture'']"

text \<open>
  \<open>generate_recommendations\<close>: an assignment when there is no issue, otherwise up to
  two \<open>extend\<close> calls on the list as it stands.
\<close>

definition generate_recommendations :: "generator \<Rightarrow> generator" where
  "generate_recommendations g =
     (if security_issues g = [] then g\<lparr>recommendations := default_block\<rparr>
      else
        let high_severity_count =
              length (filter (\<lambda>i. high_or_critical (severity i)) (security_issues g));
            g1 = (if high_severity_count > 0
                  then g\<lparr>recommendations :=
                           recommendations g @ high_severity_block high_severity_count\<rparr>
                  else g)
        in if list_ex mentions_GDPR (security_issues g1)
           then g1\<lparr>recommendations := recommendations g1 @ gdpr_block\<rparr>
           else g1)"

subsection \<open>The template\<close>

text \<open>
  The static text of \<open>html_template\<close>, cut at its \<open>{{ ... }}\<close> and \<open>{% ... %}\<close> tags.
  Jinja2 keeps the white space around block tags (\<open>trim_blocks\<close> is off by default).
\<close>

text \<open>The template from its first line to the opening of the stylesheet (source lines 164 to 171).\<close>

definition tpl_document :: string where
  \<open>tpl_document =
     ''\<newline>'' @
     ''<!DOCTYPE html>\<newline>'' @
     ''<html lang="en">\<newline>'' @
     ''<head>\<newline>'' @
     ''    <meta charset="UTF-8">\<newline>'' @
     ''    <meta name="viewport" content="width=device-width, initial-scale=1.0">\<newline>'' @
     ''    <title>DevSecOps Security Assessment Report</title>\<newline>'' @
     ''    <style>\<newline>''\<close>

text \<open>The stylesheet, first part: page layout and summary cards (source lines 172 to 226).\<close>

definition css_layout :: string where
  \<open>css_layout =
     ''        body {\<newline>'' @
     ''            font-family: 'Segoe UI', Tahoma, Geneva, Verdana, sans-serif;\<newline>'' @
     ''            line-height: 1.6;\<newline>'' @
     ''            margin: 0;\<newline>'' @
     ''            padding: 20px;\<newline>'' @
     ''            background-color: #f5f5f5;\<newline>'' @
     ''        }\<newline>'' @
     ''        .container {\<newline>'' @
     ''            max-width: 1200px;\<newline>'' @
     ''            margin: 0 auto;\<newline>'' @
     ''            background: white;\<newline>'' @
     ''            border-radius: 10px;\<newline>'' @
     ''            box-shadow: 0 0 20px rgba(0,0,0,0.1);\<newline>'' @
     ''            overflow: hidden;\<newline>'' @
     ''        }\<newline>'' @
     ''        .header {\<newline>'' @
     ''            background: linear-gradient(135deg, #667eea 0%, #764ba2 100%);\<newline>'' @
     ''            color: white;\<newline>'' @
     ''            padding: 30px;\<newline>'' @
     ''            text-align: center;\<newline>'' @
     ''        }\<newline>'' @
     ''        .header h1 {\<newline>'' @
     ''            margin: 0;\<newline>'' @
     ''            font-size: 2.5em;\<newline>'' @
     ''            font-weight: 300;\<newline>'' @
     ''        }\<newline>'' @
     ''        .header p {\<newline>'' @
     ''            margin: 10px 0 0 0;\<newline>'' @
     ''            opacity: 0.9;\<newline>'' @
     ''            font-size: 1.1em;\<newline>'' @
     ''        }\<newline>'' @
     ''        .summary {\<newline>'' @
     ''            display: grid;\<newline>'' @
     ''            grid-template-columns: repeat(auto-fit, minmax(250px, 1fr));\<newline>'' @
     ''            gap: 20px;\<newline>'' @
     ''            padding: 30px;\<newline>'' @
     ''            background: #f8f9fa;\<newline>'' @
     ''        }\<newline>'' @
     ''        .summary-card {\<newline>'' @
     ''            background: white;\<newline>'' @
     ''            padding: 20px;\<newline>'' @
     ''            border-radius: 8px;\<newline>'' @
     ''            box-shadow: 0 2px 10px rgba(0,0,0,0.1);\<newline>'' @
     ''            text-align: center;\<newline>'' @
     ''        }\<newline>'' @
     ''        .summary-card h3 {\<newline>'' @
     ''            margin: 0 0 10px 0;\<newline>'' @
     ''            color: #333;\<newline>'' @
     ''            font-size: 1.2em;\<newline>'' @
     ''        }\<newline>'' @
     ''        .summary-card .value {\<newline>'' @
     ''            font-size: 2em;\<newline>'' @
     ''            font-weight: bold;\<newline>'' @
     ''            margin: 10px 0;\<newline>'' @
     ''        }\<newline>''\<close>

text \<open>The stylesheet, second part: the classes of the risk levels and of the compliance states (source lines 227 to 233).\<close>

definition css_status_classes :: string where
  \<open>css_status_classes =
     ''        .risk-low { color: #28a745; }\<newline>'' @
     ''        .risk-medium { color: #ffc107; }\<newline>'' @
     ''        .risk-high { color: #dc3545; }\<newline>'' @
     ''        .risk-critical { color: #6f42c1; }\<newline>'' @
     ''        .compliant { color: #28a745; }\<newline>'' @
     ''        .non-compliant { color: #dc3545; }\<newline>'' @
     ''        .partially-compliant { color: #ffc107; }\<newline>''\<close>

text \<open>The stylesheet, third part: sections, issues, badges, footer (source lines 234 to 321).\<close>

definition css_content :: string where
  \<open>css_content =
     ''        .content {\<newline>'' @
     ''            padding: 30px;\<newline>'' @
     ''        }\<newline>'' @
     ''        .section {\<newline>'' @
     ''            margin-bottom: 40px;\<newline>'' @
     ''        }\<newline>'' @
     ''        .section h2 {\<newline>'' @
     ''            color: #333;\<newline>'' @
     ''            border-bottom: 2px solid #667eea;\<newline>'' @
     ''            padding-bottom: 10px;\<newline>'' @
     ''            margin-bottom: 20px;\<newline>'' @
     ''        }\<newline>'' @
     ''        .issue {\<newline>'' @
     ''            background: #fff;\<newline>'' @
     ''            border-left: 4px solid #dc3545;\<newline>'' @
     ''            padding: 20px;\<newline>'' @
     ''            margin-bottom: 20px;\<newline>'' @
     ''            border-radius: 0 8px 8px 0;\<newline>'' @
     ''            box-shadow: 0 2px 5px rgba(0,0,0,0.1);\<newline>'' @
     ''        }\<newline>'' @
     ''        .issue.warning {\<newline>'' @
     ''            border-left-color: #ffc107;\<newline>'' @
     ''        }\<newline>'' @
     ''        .issue.info {\<newline>'' @
     ''            border-left-color: #17a2b8;\<newline>'' @
     ''        }\<newline>'' @
     ''        .issue h4 {\<newline>'' @
     ''            margin: 0 0 10px 0;\<newline>'' @
     ''            color: #333;\<newline>'' @
     ''        }\<newline>'' @
     ''        .issue .severity {\<newline>'' @
     ''            display: inline-block;\<newline>'' @
     ''            padding: 4px 8px;\<newline>'' @
     ''            border-radius: 4px;\<newline>'' @
     ''            font-size: 0.8em;\<newline>'' @
     ''            font-weight: bold;\<newline>'' @
     ''            text-transform: uppercase;\<newline>'' @
     ''        }\<newline>'' @
     ''        .severity.high, .severity.critical {\<newline>'' @
     ''            background: #dc3545;\<newline>'' @
     ''            color: white;\<newline>'' @
     ''        }\<newline>'' @
     ''        .severity.medium {\<newline>'' @
     ''            background: #ffc107;\<newline>'' @
     ''            color: #333;\<newline>'' @
     ''        }\<newline>'' @
     ''        .severity.low {\<newline>'' @
     ''            background: #28a745;\<newline>'' @
     ''            color: white;\<newline>'' @
     ''        }\<newline>'' @
     ''        .recommendations {\<newline>'' @
     ''            background: #e8f4fd;\<newline>'' @
     ''            border: 1px solid #bee5eb;\<newline>'' @
     ''            border-radius: 8px;\<newline>'' @
     ''            padding: 20px;\<newline>'' @
     ''        }\<newline>'' @
     ''        .recommendations ul {\<newline>'' @
     ''            margin: 0;\<newline>'' @
     ''            padding-left: 20px;\<newline>'' @
     ''        }\<newline>'' @
     ''        .recommendations li {\<newline>'' @
     ''            margin-bottom: 10px;\<newline>'' @
     ''            font-size: 1.1em;\<newline>'' @
     ''        }\<newline>'' @
     ''        .footer {\<newline>'' @
     ''            background: #333;\<newline>'' @
     ''            color: white;\<newline>'' @
     ''            padding: 20px;\<newline>'' @
     ''            text-align: center;\<newline>'' @
     ''        }\<newline>'' @
     ''        .no-issues {\<newline>'' @
     ''            background: #d4edda;\<newline>'' @
     ''            border: 1px solid #c3e6cb;\<newline>'' @
     ''            color: #155724;\<newline>'' @
     ''            padding: 20px;\<newline>'' @
     ''            border-radius: 8px;\<newline>'' @
     ''            text-align: center;\<newline>'' @
     ''            font-size: 1.1em;\<newline>'' @
     ''        }\<newline>'' @
     ''        .gdpr-badge {\<newline>'' @
     ''            display: inline-block;\<newline>'' @
     ''            background: #007bff;\<newline>'' @
     ''            color: white;\<newline>'' @
     ''            padding: 2px 6px;\<newline>'' @
     ''            border-radius: 3px;\<newline>'' @
     ''            font-size: 0.8em;\<newline>'' @
     ''            margin-left: 10px;\<newline>'' @
     ''        }\<newline>''\<close>

text \<open>From the end of the stylesheet to \<open>{{ scan_date }}\<close> (source lines 322 to 329).\<close>

definition tpl_header :: string where
  \<open>tpl_header =
     ''    </style>\<newline>'' @
     ''</head>\<newline>'' @
     ''<body>\<newline>'' @
     ''    <div class="container">\<newline>'' @
     ''        <div class="header">\<newline>'' @
     ''            <h1>DevSecOps Security Assessment</h1>\<newline>'' @
     ''            <p>GDPR-Compliant Pipeline Security Report</p>\<newline>'' @
     ''            <p>Generated: ''\<close>

text \<open>From \<open>{{ scan_date }}\<close> to the value element of the risk-level tile (source lines 329 to 335).\<close>

definition tpl_risk_tile :: string where
  \<open>tpl_risk_tile =
     ''</p>\<newline>'' @
     ''        </div>\<newline>'' @
     ''\<newline>'' @
     ''        <div class="summary">\<newline>'' @
     ''            <div class="summary-card">\<newline>'' @
     ''                <h3>Overall Risk Level</h3>\<newline>'' @
     ''                ''\<close>

text \<open>From the value element of the risk-level tile to that of the compliance-status tile (source lines 335 to 339).\<close>

definition tpl_compliance_tile :: string where
  \<open>tpl_compliance_tile =
     ''\<newline>'' @
     ''            </div>\<newline>'' @
     ''            <div class="summary-card">\<newline>'' @
     ''                <h3>Compliance Status</h3>\<newline>'' @
     ''                ''\<close>

text \<open>From the value element of the compliance-status tile to that of the issue-count tile (source lines 339 to 343).\<close>

definition tpl_issues_tile :: string where
  \<open>tpl_issues_tile =
     ''\<newline>'' @
     ''            </div>\<newline>'' @
     ''            <div class="summary-card">\<newline>'' @
     ''                <h3>Security Issues</h3>\<newline>'' @
     ''                ''\<close>

text \<open>From the value element of the issue-count tile to that of the files-scanned tile (source lines 343 to 347).\<close>

definition tpl_files_tile :: string where
  \<open>tpl_files_tile =
     ''\<newline>'' @
     ''            </div>\<newline>'' @
     ''            <div class="summary-card">\<newline>'' @
     ''                <h3>Files Scanned</h3>\<newline>'' @
     ''                ''\<close>

text \<open>From the value element of the files-scanned tile to \<open>{% if compliance_status == 'COMPLIANT' %}\<close> (source lines 347 to 356).\<close>

definition tpl_executive_summary :: string where
  \<open>tpl_executive_summary =
     ''\<newline>'' @
     ''            </div>\<newline>'' @
     ''        </div>\<newline>'' @
     ''\<newline>'' @
     ''        <div class="content">\<newline>'' @
     ''            <div class="section">\<newline>'' @
     ''                <h2>Executive Summary</h2>\<newline>'' @
     ''                <p>This automated security assessment evaluates our DevSecOps pipeline against UK GDPR requirements and cybersecurity best practices. The scan covers static code analysis, secret detection, dependency vulnerabilities, and GDPR compliance patterns.</p>\<newline>'' @
     ''\<newline>'' @
     ''                ''\<close>

text \<open>From \<open>{% if compliance_status == 'COMPLIANT' %}\<close> to \<open>{% else %}\<close> (source lines 356 to 360).\<close>

definition tpl_no_issues :: string where
  \<open>tpl_no_issues =
     ''\<newline>'' @
     ''                <div class="no-issues">\<newline>'' @
     ''                    <strong>EXCELLENT:</strong> No security violations detected. The codebase demonstrates strong adherence to GDPR requirements and security best practices.\<newline>'' @
     ''                </div>\<newline>'' @
     ''                ''\<close>

text \<open>From \<open>{% else %}\<close> to \<open>{{ security_issues|length }}\<close> (source lines 360 to 361).\<close>

definition tpl_risk_assessment :: string where
  \<open>tpl_risk_assessment =
     ''\<newline>'' @
     ''                <p><strong>Risk Assessment:</strong> ''\<close>

text \<open>From \<open>{{ security_issues|length }}\<close> to \<open>{% endif %}\<close> (source lines 361 to 362).\<close>

definition tpl_risk_assessment_end :: string where
  \<open>tpl_risk_assessment_end =
     '' security issue(s) detected requiring attention. Immediate remediation recommended for high-severity findings to maintain compliance posture.</p>\<newline>'' @
     ''                ''\<close>

text \<open>From \<open>{% endif %}\<close> to \<open>{% if security_issues %}\<close> (source lines 362 to 365).\<close>

definition tpl_summary_end :: string where
  \<open>tpl_summary_end =
     ''\<newline>'' @
     ''            </div>\<newline>'' @
     ''\<newline>'' @
     ''            ''\<close>

text \<open>From \<open>{% if security_issues %}\<close> to \<open>{% for issue in security_issues %}\<close> (source lines 365 to 368).\<close>

definition tpl_findings :: string where
  \<open>tpl_findings =
     ''\<newline>'' @
     ''            <div class="section">\<newline>'' @
     ''                <h2>Security Findings</h2>\<newline>'' @
     ''                ''\<close>

text \<open>From \<open>{% for issue in security_issues %}\<close> to \<open>{{ issue.message }}\<close> (source lines 368 to 371).\<close>

definition tpl_issue :: string where
  \<open>tpl_issue =
     ''\<newline>'' @
     ''                <div class="issue">\<newline>'' @
     ''                    <h4>\<newline>'' @
     ''                        ''\<close>

text \<open>From \<open>{{ issue.message }}\<close> to \<open>{{ issue.severity.lower() }}\<close> (source lines 371 to 372).\<close>

definition tpl_issue_severity :: string where
  \<open>tpl_issue_severity =
     ''\<newline>'' @
     ''                        <span class="severity ''\<close>

text \<open>From \<open>{{ issue.severity }}\<close> to \<open>{% if 'GDPR' in issue.business_impact %}\<close> (source lines 372 to 373).\<close>

definition tpl_issue_severity_end :: string where
  \<open>tpl_issue_severity_end =
     ''</span>\<newline>'' @
     ''                        ''\<close>

text \<open>From \<open>{% if 'GDPR' in issue.business_impact %}\<close> to \<open>{% endif %}\<close> (source lines 373 to 375).\<close>

definition tpl_gdpr_badge :: string where
  \<open>tpl_gdpr_badge =
     ''\<newline>'' @
     ''                        <span class="gdpr-badge">GDPR</span>\<newline>'' @
     ''                        ''\<close>

text \<open>From \<open>{% endif %}\<close> to \<open>{{ issue.file }}\<close> (source lines 375 to 377).\<close>

definition tpl_issue_file :: string where
  \<open>tpl_issue_file =
     ''\<newline>'' @
     ''                    </h4>\<newline>'' @
     ''                    <p><strong>File:</strong> ''\<close>

text \<open>From \<open>{{ issue.line }}\<close> to \<open>{{ issue.business_impact }}\<close> (source lines 377 to 378).\<close>

definition tpl_issue_impact :: string where
  \<open>tpl_issue_impact =
     '')</p>\<newline>'' @
     ''                    <p><strong>Business Impact:</strong> ''\<close>

text \<open>From \<open>{{ issue.business_impact }}\<close> to \<open>{{ issue.remediation }}\<close> (source lines 378 to 379).\<close>

definition tpl_issue_action :: string where
  \<open>tpl_issue_action =
     ''</p>\<newline>'' @
     ''                    <p><strong>Recommended Action:</strong> ''\<close>

text \<open>From \<open>{{ issue.remediation }}\<close> to \<open>{% endfor %}\<close> (source lines 379 to 381).\<close>

definition tpl_issue_end :: string where
  \<open>tpl_issue_end =
     ''</p>\<newline>'' @
     ''                </div>\<newline>'' @
     ''                ''\<close>

text \<open>From \<open>{% endfor %}\<close> to \<open>{% endif %}\<close> (source lines 381 to 383).\<close>

definition tpl_findings_end :: string where
  \<open>tpl_findings_end =
     ''\<newline>'' @
     ''            </div>\<newline>'' @
     ''            ''\<close>

text \<open>From \<open>{% endif %}\<close> to \<open>{% for recommendation in recommendations %}\<close> (source lines 383 to 389).\<close>

definition tpl_recommendations :: string where
  \<open>tpl_recommendations =
     ''\<newline>'' @
     ''\<newline>'' @
     ''            <div class="section">\<newline>'' @
     ''                <h2>Strategic Recommendations</h2>\<newline>'' @
     ''                <div class="recommendations">\<newline>'' @
     ''                    <ul>\<newline>'' @
     ''                        ''\<close>

text \<open>From \<open>{% for recommendation in recommendations %}\<close> to \<open>{{ recommendation }}\<close> (source lines 389 to 390).\<close>

definition tpl_recommendation :: string where
  \<open>tpl_recommendation =
     ''\<newline>'' @
     ''                        <li>''\<close>

text \<open>From \<open>{{ recommendation }}\<close> to \<open>{% endfor %}\<close> (source lines 390 to 391).\<close>

definition tpl_recommendation_end :: string where
  \<open>tpl_recommendation_end =
     ''</li>\<newline>'' @
     ''                        ''\<close>

text \<open>From \<open>{% endfor %}\<close> to the end of the template (source lines 391 to 414).\<close>

definition tpl_footer :: string where
  \<open>tpl_footer =
     ''\<newline>'' @
     ''                    </ul>\<newline>'' @
     ''                </div>\<newline>'' @
     ''            </div>\<newline>'' @
     ''\<newline>'' @
     ''            <div class="section">\<newline>'' @
     ''                <h2>Compliance Framework Coverage</h2>\<newline>'' @
     ''                <ul>\<newline>'' @
     ''                    <li><strong>UK GDPR Articles:</strong> 5 (Data minimization), 6 (Lawful basis), 15 (Access rights), 17 (Erasure), 25 (Privacy by design), 30 (Records), 32 (Security)</li>\<newline>'' @
     ''                    <li><strong>Security Controls:</strong> Static code analysis, secret detection, dependency scanning, supply chain transparency</li>\<newline>'' @
     ''                    <li><strong>Automated Compliance:</strong> Pre-commit hooks, CI/CD integration, continuous monitoring</li>\<newline>'' @
     ''                    <li><strong>Risk Management:</strong> Vulnerability assessment, breach prevention, audit trail maintenance</li>\<newline>'' @
     ''                </ul>\<newline>'' @
     ''            </div>\<newline>'' @
     ''        </div>\<newline>'' @
     ''\<newline>'' @
     ''        <div class="footer">\<newline>'' @
     ''            <p>This report was automatically generated by our GDPR-Compliant DevSecOps Pipeline</p>\<newline>'' @
     ''            <p>For technical details, review the individual scan results in the security-reports directory</p>\<newline>'' @
     ''        </div>\<newline>'' @
     ''    </div>\<newline>'' @
     ''</body>\<newline>'' @
     ''</html>\<newline>'' @
     ''        ''\<close>

subsection \<open>The renderer\<close>

text \<open>
  \<open>Template(html_template)\<close> is built with Jinja2's defaults, under which
  \<open>{{ e }}\<close> writes \<open>str(e)\<close> as it is: \<open>autoescape\<close> is off and the template
  applies no escape filter.
\<close>

text \<open>
  \<open>{{ v.lower() }}\<close>, as Jinja2 evaluates it: a string has the method; on any other
  value the attribute lookup falls back to \<open>v['lower']\<close>, which gives an undefined
  value (calling it raises UndefinedError) unless \<open>v\<close> is a dict with that key, whose
  value is then called and is not callable.
\<close>

definition jinja_lower :: "json \<Rightarrow> py_error + string" where
  "jinja_lower v =
     (case v of
        JStr s \<Rightarrow> Inr (lower s)
      | JObj kvs \<Rightarrow>
          (case map_of kvs ''lower'' of None \<Rightarrow> Inl UndefinedError | Some _ \<Rightarrow> Inl TypeError)
      | _ \<Rightarrow> Inl UndefinedError)"

text \<open>The element \<open><div class="...">...</div>\<close> that shows the value of a summary tile.\<close>

definition value_div :: "string \<Rightarrow> string \<Rightarrow> string" where
  \<open>value_div cls txt = ''<div class="'' @ cls @ ''">'' @ txt @ ''</div>''\<close>

text \<open>\<open>risk-{{ risk_level.lower() }}\<close>.\<close>

definition risk_class :: "string \<Rightarrow> string" where
  "risk_class level = ''risk-'' @ lower level"

text \<open>\<open>{{ compliance_status.lower().replace('-', '_') }}\<close>.\<close>

definition compliance_class :: "string \<Rightarrow> string" where
  "compliance_class status = replace_char (CHR ''-'') (CHR ''_'') (lower status)"

text \<open>The value elements of the four summary tiles.\<close>

definition risk_tile :: "generator \<Rightarrow> string" where
  "risk_tile g = value_div (''value '' @ risk_class (risk_level g)) (risk_level g)"

definition compliance_tile :: "generator \<Rightarrow> string" where
  "compliance_tile g =
     value_div (''value '' @ compliance_class (compliance_status g)) (compliance_status g)"

definition issues_tile :: "generator \<Rightarrow> string" where
  "issues_tile g = value_div ''value'' (show_nat (length (security_issues g)))"

definition files_tile :: "generator \<Rightarrow> string" where
  "files_tile g = value_div ''value'' (show_nat (total_files_scanned g))"

text \<open>The \<open>if\<close>/\<open>else\<close> of the executive summary.\<close>

definition render_assessment :: "generator \<Rightarrow> string" where
  "render_assessment g =
     (if compliance_status g = ''COMPLIANT'' then tpl_no_issues
      else tpl_risk_assessment @ show_nat (length (security_issues g))
             @ tpl_risk_assessment_end)"

text \<open>The body of \<open>{% for issue in security_issues %}\<close>.\<close>

definition render_issue :: "(json \<Rightarrow> string) \<Rightarrow> issue \<Rightarrow> py_error + string" where
  \<open>render_issue rp i =
     bnd (jinja_lower (severity i)) (\<lambda>severity_class.
       Inr (tpl_issue @ py_str rp (message i)
            @ tpl_issue_severity @ severity_class @ ''">'' @ py_str rp (severity i)
            @ tpl_issue_severity_end
            @ (if mentions_GDPR i then tpl_gdpr_badge else [])
            @ tpl_issue_file @ py_str rp (issue_file i)
            @ '' (Line '' @ py_str rp (line i)
            @ tpl_issue_impact @ business_impact i
            @ tpl_issue_action @ remediation i
            @ tpl_issue_end))\<close>

fun render_issues :: "(json \<Rightarrow> string) \<Rightarrow> issue list \<Rightarrow> py_error + string" where
  "render_issues rp [] = Inr []"
| "render_issues rp (i # rest) =
     (case render_issue rp i of
        Inl e \<Rightarrow> Inl e
      | Inr a \<Rightarrow> (case render_issues rp rest of Inl e \<Rightarrow> Inl e | Inr b \<Rightarrow> Inr (a @ b)))"

text \<open>\<open>{% if security_issues %}\<close> around the findings section.\<close>

definition render_findings :: "(json \<Rightarrow> string) \<Rightarrow> issue list \<Rightarrow> py_error + string" where
  "render_findings rp issues =
     (if issues = [] then Inr []
      else bnd (render_issues rp issues) (\<lambda>body. Inr (tpl_findings @ body @ tpl_findings_end)))"

text \<open>The body of \<open>{% for recommendation in recommendations %}\<close>, once per entry.\<close>

definition render_recommendations :: "string list \<Rightarrow> string" where
  "render_recommendations recs =
     concat (map (\<lambda>r. tpl_recommendation @ r @ tpl_recommendation_end) recs)"

definition stylesheet :: string where
  "stylesheet = css_layout @ css_status_classes @ css_content"

text \<open>\<open>generate_html_report\<close>: the template rendered with the keys of \<open>report_data\<close>.\<close>

definition generate_html_report :: "(json \<Rightarrow> string) \<Rightarrow> generator \<Rightarrow> py_error + string" where
  "generate_html_report rp g =
     bnd (render_findings rp (security_issues g)) (\<lambda>findings.
       Inr (tpl_document @ stylesheet @ tpl_header @ scan_date g
            @ tpl_risk_tile @ risk_tile g
            @ tpl_compliance_tile @ compliance_tile g
            @ tpl_issues_tile @ issues_tile g
            @ tpl_files_tile @ files_tile g
            @ tpl_executive_summary @ render_assessment g
            @ tpl_summary_end @ findings
            @ tpl_recommendations @ render_recommendations (recommendations g)
            @ tpl_footer))"

subsection \<open>The main function\<close>

text \<open>The three loader calls of \<open>main\<close>; an exception that leaves a loader ends the run.\<close>

definition run_loaders :: "(json \<Rightarrow> string) \<Rightarrow> files \<Rightarrow> generator \<Rightarrow> outcome" where
  "run_loaders rp fs g =
     (case load_semgrep_results fs ''security-reports/pii-scan.json'' g of
        Raised e g1 \<Rightarrow> Raised e g1
      | Done g1 \<Rightarrow>
          (case load_gitleaks_results rp fs ''security-reports/gitleaks-report.json'' g1 of
             Raised e g2 \<Rightarrow> Raised e g2
           | Done g2 \<Rightarrow>
               load_vulnerability_scan rp fs ''security-reports/vulnerabilities.json'' g2))"

text \<open>
  What a run of the script leaves behind: its exit code, the text written to
  \<open>security-reports/executive-report.html\<close> (if the run got that far) and the lines on
  standard output. An uncaught exception ends the process with exit code 1. Creating
  the directory and writing the file are taken to succeed.
\<close>

record run =
  exit_code :: nat
  report_written :: "string option"
  printed :: "string list"

definition main :: "string \<Rightarrow> (json \<Rightarrow> string) \<Rightarrow> files \<Rightarrow> run" where
  "main now rp fs =
     (case run_loaders rp fs (init now) of
        Raised e g \<Rightarrow> \<lparr>exit_code = 1, report_written = None, printed = stdout g\<rparr>
      | Done g \<Rightarrow>
          (let g' = generate_recommendations g
           in case generate_html_report rp g' of
                Inl e \<Rightarrow> \<lparr>exit_code = 1, report_written = None, printed = stdout g'\<rparr>
              | Inr html_report \<Rightarrow>
                  \<lparr>exit_code = 0,
                   report_written = Some html_report,
                   printed = stdout g' @
                     [''Executive security report generated: security-reports/executive-report.html'',
                      ''Report summary: '' @ compliance_status g' @ '' - '' @ risk_level g'
                        @ '' risk'']\<rparr>))"

subsection \<open>The documented shapes of the inputs\<close>

text \<open>
  The spec gives the shape of each input file. The predicates below say that a parsed
  value has that shape, in terms of the accesses the shape allows: a key that is
  reached, or reached and holding a string.
\<close>

definition present :: "py_error + json \<Rightarrow> bool" where
  "present r = (case r of Inr _ \<Rightarrow> True | Inl _ \<Rightarrow> False)"

definition is_text :: "py_error + json \<Rightarrow> bool" where
  "is_text r = (case r of Inr (JStr _) \<Rightarrow> True | _ \<Rightarrow> False)"

text \<open>
  One entry of \<open>results\<close>: \<open>{check_id, path, start:{line}, extra:{severity, message}}\<close>,
  the rule id and the severity being strings.
\<close>

definition wf_result :: "json \<Rightarrow> bool" where
  "wf_result r =
     (is_text (subscript2 r ''extra'' ''severity'') \<and>
      present (subscript2 r ''extra'' ''message'') \<and>
      present (subscript r ''path'') \<and>
      present (subscript2 r ''start'' ''line'') \<and>
      is_text (subscript r ''check_id''))"

text \<open>
  The static-analysis file: \<open>{paths:{scanned:[...]}, results:[...]}\<close>, where \<open>paths\<close>,
  \<open>scanned\<close> and \<open>results\<close> may be missing.
\<close>

definition wf_semgrep :: "json \<Rightarrow> bool" where
  "wf_semgrep data =
     ((case dict_get2 data ''paths'' (JObj []) ''scanned'' (JList []) of
         Inr (JList _) \<Rightarrow> True | _ \<Rightarrow> False) \<and>
      (case dict_get data ''results'' (JList []) of
         Inr (JList results) \<Rightarrow> list_all wf_result results | _ \<Rightarrow> False))"

text \<open>The results of a static-analysis file and the severity of one of them.\<close>

definition semgrep_results :: "json \<Rightarrow> json list" where
  "semgrep_results data =
     (case dict_get data ''results'' (JList []) of Inr (JList results) \<Rightarrow> results | _ \<Rightarrow> [])"

definition result_severity :: "json \<Rightarrow> json" where
  "result_severity r = (case subscript2 r ''extra'' ''severity'' of Inr s \<Rightarrow> s | Inl _ \<Rightarrow> JNull)"

text \<open>
  The rule of the spec for the static-analysis loader, over the severities of the
  results: no results, LOW and COMPLIANT; any severity ERROR, HIGH and NON-COMPLIANT;
  else MEDIUM and PARTIALLY COMPLIANT.
\<close>

definition spec_static_status :: "json list \<Rightarrow> string \<times> string" where
  "spec_static_status severities =
     (if severities = [] then (''LOW'', ''COMPLIANT'')
      else if JStr ''ERROR'' \<in> set severities then (''HIGH'', ''NON-COMPLIANT'')
      else (''MEDIUM'', ''PARTIALLY COMPLIANT''))"











text \<open>An issue whose severity is a string: the only kind the template can render.\<close>

definition text_severity :: "issue \<Rightarrow> bool" where
  "text_severity i = (case severity i of JStr _ \<Rightarrow> True | _ \<Rightarrow> False)"

subsection \<open>The order of the risk levels\<close>

text \<open>The order LOW < MEDIUM < HIGH < CRITICAL of the glossary.\<close>

definition risk_rank :: "string \<Rightarrow> nat" where
  "risk_rank level =
     (if level = ''CRITICAL'' then 3 else if level = ''HIGH'' then 2
      else if level = ''MEDIUM'' then 1 else 0)"

text \<open>
  The kinds of issue in a state, by the \<open>type\<close> that the loaders give: an issue of the
  secret-detection loader, an issue of the static-analysis loader, and one of those
  with severity ERROR.
\<close>

definition has_secret :: "generator \<Rightarrow> bool" where
  "has_secret g = list_ex (\<lambda>i. issue_type i = ''Secret/PII Exposure'') (security_issues g)"

definition has_static :: "generator \<Rightarrow> bool" where
  "has_static g = list_ex (\<lambda>i. issue_type i = ''GDPR Compliance Violation'') (security_issues g)"

definition has_static_error :: "generator \<Rightarrow> bool" where
  "has_static_error g =
     list_ex (\<lambda>i. issue_type i = ''GDPR Compliance Violation'' \<and> severity i = JStr ''ERROR'')
       (security_issues g)"

text \<open>The status agrees with the static-analysis and secret-detection issues of the state.\<close>

definition status_inv :: "generator \<Rightarrow> bool" where
  "status_inv g =
     ((has_secret g \<longrightarrow> risk_level g = ''CRITICAL'' \<and> compliance_status g = ''NON-COMPLIANT'') \<and>
      (has_static_error g \<longrightarrow>
         risk_rank ''HIGH'' \<le> risk_rank (risk_level g) \<and> compliance_status g = ''NON-COMPLIANT'') \<and>
      (has_static g \<longrightarrow>
         risk_rank ''MEDIUM'' \<le> risk_rank (risk_level g) \<and> compliance_status g \<noteq> ''COMPLIANT''))"

subsection \<open>What the spec asks of the renderer\<close>



text \<open>
  The class that the spec gives a summary tile: the value in lower case, with dashes
  between its words.
\<close>

definition spec_css_class :: "string \<Rightarrow> string" where
  "spec_css_class v =
     map (\<lambda>c. if c = CHR '' '' \<or> c = CHR ''_'' then CHR ''-'' else c) (lower v)"

text \<open>The text of the report that a run has written, empty when it wrote none.\<close>

definition report_of :: "run \<Rightarrow> string" where
  "report_of r = (case report_written r of Some html \<Rightarrow> html | None \<Rightarrow> [])"

subsection \<open>Example inputs\<close>

text \<open>
  Concrete runs, used below to check that the hypotheses of the theorems are met by
  inputs the script can receive. None of them holds a float, a list or a dict where a
  text is printed, so the \<open>repr\<close> parameter is never consulted.
\<close>

definition no_repr :: "json \<Rightarrow> string" where
  "no_repr v = []"

text \<open>A static-analysis file with one result of severity ERROR under a rule of the table.\<close>

definition pii_scan_error :: json where
  "pii_scan_error =
     JObj [(''paths'', JObj [(''scanned'', JList [JStr ''app.py''])]),
           (''results'',
            JList [JObj [(''check_id'', JStr ''rules.gdpr.hardcoded-personal-data''),
                         (''path'', JStr ''app.py''),
                         (''start'', JObj [(''line'', JInt 12)]),
                         (''extra'', JObj [(''severity'', JStr ''ERROR''),
                                           (''message'', JStr ''Hardcoded email'')])]])]"

text \<open>A static-analysis file with one result of severity WARNING.\<close>

definition pii_scan_warning :: json where
  "pii_scan_warning =
     JObj [(''results'',
            JList [JObj [(''check_id'', JStr ''rules.gdpr.detect-pii-in-logs''),
                         (''path'', JStr ''log.py''),
                         (''start'', JObj [(''line'', JInt 3)]),
                         (''extra'', JObj [(''severity'', JStr ''WARNING''),
                                           (''message'', JStr ''PII in log'')])]])]"

text \<open>A secret-detection file with one finding.\<close>

definition gitleaks_one :: json where
  "gitleaks_one =
     JList [JObj [(''Description'', JStr ''AWS key''), (''File'', JStr ''app.py''),
                  (''StartLine'', JInt 7), (''RuleID'', JStr ''aws-access-token'')]]"

text \<open>
  A vulnerability file with a HIGH match that lists a fix, a LOW match, a CRITICAL
  match without fix data and a match without severity.
\<close>

definition vulnerabilities_mixed :: json where
  "vulnerabilities_mixed =
     JObj [(''matches'',
            JList [JObj [(''artifact'', JObj [(''name'', JStr ''lodash'')]),
                         (''vulnerability'',
                          JObj [(''id'', JStr ''CVE-2021-23337''), (''severity'', JStr ''HIGH''),
                                (''fix'', JObj [(''versions'', JList [JStr ''4.17.21''])])])],
                   JObj [(''artifact'', JObj [(''name'', JStr ''minimist'')]),
                         (''vulnerability'',
                          JObj [(''id'', JStr ''CVE-2020-7598''), (''severity'', JStr ''LOW'')])],
                   JObj [(''artifact'', JObj [(''name'', JStr ''log4j'')]),
                         (''vulnerability'',
                          JObj [(''id'', JStr ''CVE-2021-44228''),
                                (''severity'', JStr ''CRITICAL'')])],
                   JObj [(''artifact'', JObj [(''name'', JStr ''left-pad'')])]])]"


text \<open>A static-analysis file whose one result has no \<open>extra\<close> key.\<close>

definition pii_scan_missing_key :: json where
  "pii_scan_missing_key = JObj [(''results'', JList [JObj [(''check_id'', JStr ''rules.x'')]])]"

text \<open>A vulnerability file whose \<open>versions\<close> is an object, not a list.\<close>

definition vulnerabilities_versions_object :: json where
  "vulnerabilities_versions_object =
     JObj [(''matches'',
            JList [JObj [(''vulnerability'',
                          JObj [(''severity'', JStr ''HIGH''),
                                (''fix'', JObj [(''versions'', JObj [(''npm'', JStr ''1.2.3'')])])])]])]"

text \<open>A vulnerability file whose HIGH match has an empty list of fix versions.\<close>

definition vulnerabilities_not_fixed :: json where
  "vulnerabilities_not_fixed =
     JObj [(''matches'',
            JList [JObj [(''vulnerability'',
                          JObj [(''severity'', JStr ''HIGH''),
                                (''fix'', JObj [(''versions'', JList []),
                                                (''state'', JStr ''not-fixed'')])])]])]"

text \<open>Working directories: which of the three files exist, and what they hold.\<close>

definition directory :: "file_read \<Rightarrow> file_read \<Rightarrow> file_read \<Rightarrow> files" where
  "directory pii gitleaks vulnerabilities path =
     (if path = ''security-reports/pii-scan.json'' then pii
      else if path = ''security-reports/gitleaks-report.json'' then gitleaks
      else if path = ''security-reports/vulnerabilities.json'' then vulnerabilities
      else NotFound)"

definition files_secret :: files where
  "files_secret = directory (Parsed pii_scan_error) (Parsed gitleaks_one) NotFound"

definition files_warning :: files where
  "files_warning = directory (Parsed pii_scan_warning) NotFound NotFound"

definition files_vulnerable :: files where
  "files_vulnerable = directory NotFound NotFound (Parsed vulnerabilities_mixed)"



text \<open>The state in which the three loaders of \<open>main\<close> leave a fresh generator.\<close>

definition loaded :: "files \<Rightarrow> generator" where
  "loaded fs = state_of (run_loaders no_repr fs (init ''2024-01-01 00:00:00 UTC''))"

section \<open>Properties\<close>

subsection \<open>Auxiliary facts\<close>

lemma bnd_simps [simp]: "bnd (Inl e) f = Inl e" "bnd (Inr x) f = f x"
  by (simp_all add: bnd_def)

lemma print_line_fields [simp]:
  "risk_level (print_line s g) = risk_level g"
  "compliance_status (print_line s g) = compliance_status g"
  "security_issues (print_line s g) = security_issues g"
  "recommendations (print_line s g) = recommendations g"
  "total_files_scanned (print_line s g) = total_files_scanned g"
  by (simp_all add: print_line_def)

lemma state_of_catch_KeyError:
  "state_of (catch_KeyError msg r) = state_of r \<or> state_of (catch_KeyError msg r) = print_line msg (state_of r)"
  by (cases r) (simp_all add: catch_KeyError_def)

lemma vulnerability_matches_frame:
  "risk_level (state_of (vulnerability_matches rp ms g)) = risk_level g \<and>
   compliance_status (state_of (vulnerability_matches rp ms g)) = compliance_status g"
  by (induction ms arbitrary: g) (auto split: sum.splits)

lemma load_vulnerability_scan_keeps_status:
  "risk_level (state_of (load_vulnerability_scan rp fs filepath g)) = risk_level g \<and>
   compliance_status (state_of (load_vulnerability_scan rp fs filepath g)) = compliance_status g"
proof (cases "fs filepath")
  case (Parsed data)
  let ?body = "case bnd (dict_get data ''matches'' (JList [])) py_iter of
                 Inl e \<Rightarrow> Raised e g
               | Inr matches \<Rightarrow> vulnerability_matches rp matches g"
  have body: "risk_level (state_of ?body) = risk_level g \<and>
              compliance_status (state_of ?body) = compliance_status g"
    by (simp add: vulnerability_matches_frame split: sum.splits)
  from state_of_catch_KeyError [of "''Error parsing vulnerability results: '' @ filepath" ?body]
  show ?thesis
    using body Parsed by (auto simp: load_vulnerability_scan_def)
qed (simp_all add: load_vulnerability_scan_def)

lemma dict_get_error: "dict_get d k dflt = Inl e \<Longrightarrow> e = AttributeError"
  by (auto simp: dict_get_def split: json.splits)

lemma gitleaks_issue_error: "gitleaks_issue rp f = Inl e \<Longrightarrow> e = AttributeError"
  by (auto simp: gitleaks_issue_def bnd_def split: sum.splits dest: dict_get_error)

lemma gitleaks_findings_error:
  "gitleaks_findings rp xs g = Raised e g' \<Longrightarrow> e = AttributeError"
  by (induction xs arbitrary: g) (auto split: sum.splits dest: gitleaks_issue_error)

lemma gitleaks_findings_critical:
  "gitleaks_findings rp xs g = Done g' \<Longrightarrow>
   xs \<noteq> [] \<or> (risk_level g = ''CRITICAL'' \<and> compliance_status g = ''NON-COMPLIANT'') \<Longrightarrow>
   risk_level g' = ''CRITICAL'' \<and> compliance_status g' = ''NON-COMPLIANT''"
proof (induction xs arbitrary: g)
  case Nil
  then show ?case by simp
next
  case (Cons x xs)
  from Cons.prems(1) obtain i where
    step: "gitleaks_findings rp xs
             (g\<lparr>security_issues := security_issues g @ [i], risk_level := ''CRITICAL'',
                compliance_status := ''NON-COMPLIANT''\<rparr>) = Done g'"
    by (auto split: sum.splits)
  show ?case by (rule Cons.IH [OF step]) simp
qed

lemma load_gitleaks_results_critical:
  assumes "fs filepath = Parsed (JList (f # rest))"
    and "load_gitleaks_results rp fs filepath g = Done g'"
  shows "risk_level g' = ''CRITICAL'' \<and> compliance_status g' = ''NON-COMPLIANT''"
proof -
  from assms have c: "catch_KeyError (''Error parsing GitLeaks results: '' @ filepath)
           (gitleaks_findings rp (f # rest) g) = Done g'"
    by (simp add: load_gitleaks_results_def py_iter_def)
  have "gitleaks_findings rp (f # rest) g = Done g'"
  proof (cases "gitleaks_findings rp (f # rest) g")
    case (Done g'')
    with c show ?thesis by (simp add: catch_KeyError_def)
  next
    case (Raised e g'')
    then have "e = AttributeError" by (rule gitleaks_findings_error)
    with c Raised show ?thesis by (simp add: catch_KeyError_def)
  qed
  then show ?thesis by (rule gitleaks_findings_critical) simp
qed

lemma run_files_secret:
  "run_loaders no_repr files_secret (init ''2024-01-01 00:00:00 UTC'') = Done (loaded files_secret)"
  unfolding loaded_def by code_simp

text \<open>The static-analysis loader: what a completed run has done, and when it completes.\<close>

lemma py_iter_len: "py_iter v = Inr items \<Longrightarrow> py_len v = Inr (length items)"
  by (auto simp: py_iter_def py_len_def split: json.splits)

lemma semgrep_issue_fields:
  assumes "semgrep_issue r = Inr i"
  shows "subscript2 r ''extra'' ''severity'' = Inr (severity i)"
    and "issue_type i = ''GDPR Compliance Violation''"
  using assms by (auto simp: semgrep_issue_def bnd_def split: sum.splits)

lemma semgrep_issues_Done:
  "semgrep_issues rs g = Done g' \<Longrightarrow>
   \<exists>new. g' = g\<lparr>security_issues := security_issues g @ new\<rparr> \<and>
         list_all2 (\<lambda>r i. semgrep_issue r = Inr i) rs new"
proof (induction rs arbitrary: g)
  case Nil
  then show ?case by simp
next
  case (Cons r rs)
  from Cons.prems obtain i where i: "semgrep_issue r = Inr i" and
    rest: "semgrep_issues rs (g\<lparr>security_issues := security_issues g @ [i]\<rparr>) = Done g'"
    by (auto split: sum.splits)
  from Cons.IH [OF rest] obtain new where
    new: "g' = g\<lparr>security_issues := security_issues g @ [i]\<rparr>
               \<lparr>security_issues := security_issues (g\<lparr>security_issues := security_issues g @ [i]\<rparr>) @ new\<rparr>"
      "list_all2 (\<lambda>r i. semgrep_issue r = Inr i) rs new"
    by blast
  show ?case
    by (rule exI [of _ "i # new"]) (use i new in simp)
qed

lemma any_error_built:
  "list_all2 (\<lambda>r i. semgrep_issue r = Inr i) rs new \<Longrightarrow>
   any_error rs = Inr (list_ex (\<lambda>i. severity i = JStr ''ERROR'') new)"
  by (induction rs new rule: list_all2_induct) (auto dest: semgrep_issue_fields(1))

lemma wf_result_issue:
  assumes "wf_result r"
  shows "\<exists>i. semgrep_issue r = Inr i"
  using assms
  by (auto simp: wf_result_def semgrep_issue_def present_def is_text_def bnd_def
        get_business_impact_def get_remediation_advice_def split: sum.splits json.splits)

lemma wf_results_issues:
  "list_all wf_result rs \<Longrightarrow> \<exists>g'. semgrep_issues rs g = Done g'"
proof (induction rs arbitrary: g)
  case Nil
  then show ?case by simp
next
  case (Cons r rs)
  then obtain i where "semgrep_issue r = Inr i" using wf_result_issue by auto
  with Cons show ?case by simp
qed

lemma semgrep_issues_severities:
  "list_all2 (\<lambda>r i. semgrep_issue r = Inr i) rs new \<Longrightarrow>
   map severity new = map result_severity rs"
  by (induction rs new rule: list_all2_induct)
     (auto simp: result_severity_def dest: semgrep_issue_fields(1))

lemma semgrep_issues_types:
  "list_all2 (\<lambda>r i. semgrep_issue r = Inr i) rs new \<Longrightarrow>
   list_all (\<lambda>i. issue_type i = ''GDPR Compliance Violation'') new"
  by (induction rs new rule: list_all2_induct) (auto dest: semgrep_issue_fields(2))

lemma load_semgrep_results_Done:
  assumes "fs filepath = Parsed data"
    and "load_semgrep_results fs filepath g = Done g'"
  shows "\<exists>rj rs new.
           dict_get data ''results'' (JList []) = Inr rj \<and> py_iter rj = Inr rs \<and>
           list_all2 (\<lambda>r i. semgrep_issue r = Inr i) rs new \<and>
           security_issues g' = security_issues g @ new \<and>
           (risk_level g', compliance_status g') = spec_static_status (map severity new) \<and>
           recommendations g' = recommendations g \<and> stdout g' = stdout g \<and>
           scan_date g' = scan_date g"
proof -
  from assms obtain n rj rs g1 where
    rj: "dict_get data ''results'' (JList []) = Inr rj" and
    rs: "py_iter rj = Inr rs" and
    loop: "semgrep_issues rs (g\<lparr>total_files_scanned := n\<rparr>) = Done g1" and
    risk: "semgrep_risk data g1 = Done g'"
    by (auto simp: load_semgrep_results_def bnd_def split: sum.splits outcome.splits)
  from semgrep_issues_Done [OF loop] obtain new where
    g1: "g1 = g\<lparr>total_files_scanned := n\<rparr>\<lparr>security_issues := security_issues (g\<lparr>total_files_scanned := n\<rparr>) @ new\<rparr>" and
    built: "list_all2 (\<lambda>r i. semgrep_issue r = Inr i) rs new"
    by blast
  have len: "py_len rj = Inr (length new)"
    using py_iter_len [OF rs] list_all2_lengthD [OF built] by simp
  have any: "any_error rs = Inr (list_ex (\<lambda>i. severity i = JStr ''ERROR'') new)"
    by (rule any_error_built [OF built])
  have mem: "list_ex (\<lambda>i. severity i = JStr ''ERROR'') new \<longleftrightarrow> JStr ''ERROR'' \<in> set (map severity new)"
    by (force simp: list_ex_iff)
  have "security_issues g' = security_issues g @ new \<and>
        (risk_level g', compliance_status g') = spec_static_status (map severity new) \<and>
        recommendations g' = recommendations g \<and> stdout g' = stdout g \<and> scan_date g' = scan_date g"
    using risk rj rs len any mem g1
    by (auto simp: semgrep_risk_def spec_static_status_def split: if_splits)
  with rj rs built show ?thesis by blast
qed

lemma wf_semgrep_Done:
  assumes "fs filepath = Parsed data" and "wf_semgrep data"
  shows "\<exists>g'. load_semgrep_results fs filepath g = Done g'"
proof -
  from assms(2) obtain scanned rs where
    sc: "dict_get2 data ''paths'' (JObj []) ''scanned'' (JList []) = Inr (JList scanned)" and
    rj: "dict_get data ''results'' (JList []) = Inr (JList rs)" and
    wf: "list_all wf_result rs"
    by (auto simp: wf_semgrep_def split: sum.splits json.splits)
  from wf_results_issues [OF wf] obtain g1 where
    loop: "semgrep_issues rs (g\<lparr>total_files_scanned := length scanned\<rparr>) = Done g1"
    by blast
  from semgrep_issues_Done [OF loop] obtain new where
    built: "list_all2 (\<lambda>r i. semgrep_issue r = Inr i) rs new" by blast
  have any: "any_error rs = Inr (list_ex (\<lambda>i. severity i = JStr ''ERROR'') new)"
    by (rule any_error_built [OF built])
  have "\<exists>g'. semgrep_risk data g1 = Done g'"
    using rj any by (simp add: semgrep_risk_def py_len_def py_iter_def split: bool.splits)
  then show ?thesis
    using assms(1) sc rj loop
    by (auto simp: load_semgrep_results_def dict_get2_def py_len_def py_iter_def bnd_def
          split: sum.splits)
qed

text \<open>The vulnerability loader: what a completed run has done, and when it completes.\<close>

lemma vulnerability_issue_fields:
  assumes "vulnerability_issue rp m sev = Inr i"
  shows "issue_type i = ''Dependency Vulnerability''" and "severity i = sev"
  using assms by (auto simp: vulnerability_issue_def bnd_def split: sum.splits)












text \<open>
  The status invariant: it holds after the static-analysis loader on a state without
  issues, and the other two loaders keep it.
\<close>

lemma status_inv_print_line [simp]: "status_inv (print_line s g) = status_inv g"
  by (simp add: status_inv_def has_secret_def has_static_def has_static_error_def)

lemma semgrep_status_inv:
  assumes "security_issues g = []" and "load_semgrep_results fs filepath g = Done g'"
  shows "status_inv g'"
proof (cases "fs filepath")
  case NotFound
  with assms have "g' = print_line (''Semgrep results file not found: '' @ filepath) g"
    by (simp add: load_semgrep_results_def)
  with assms(1) show ?thesis
    by (simp add: status_inv_def has_secret_def has_static_def has_static_error_def)
next
  case BadJSON
  with assms have "g' = print_line (''Invalid JSON in Semgrep results: '' @ filepath) g"
    by (simp add: load_semgrep_results_def)
  with assms(1) show ?thesis
    by (simp add: status_inv_def has_secret_def has_static_def has_static_error_def)
next
  case (Parsed data)
  from load_semgrep_results_Done [of fs filepath data g g'] Parsed assms(2) obtain rs new where
    built: "list_all2 (\<lambda>r i. semgrep_issue r = Inr i) rs new" and
    issues: "security_issues g' = security_issues g @ new" and
    status: "(risk_level g', compliance_status g') = spec_static_status (map severity new)"
    by blast
  from semgrep_issues_types [OF built]
  have types: "list_all (\<lambda>i. issue_type i = ''GDPR Compliance Violation'') new" .
  from issues assms(1) have iss: "security_issues g' = new" by simp
  have no_secret: "\<not> has_secret g'"
    using types by (auto simp: has_secret_def iss list_ex_iff list_all_iff)
  have err: "risk_level g' = ''HIGH'' \<and> compliance_status g' = ''NON-COMPLIANT''"
    if "has_static_error g'"
  proof -
    from that have "JStr ''ERROR'' \<in> set (map severity new)" and "new \<noteq> []"
      by (force simp: has_static_error_def iss list_ex_iff)+
    with status show ?thesis by (simp add: spec_static_status_def)
  qed
  have any: "(risk_level g' = ''HIGH'' \<and> compliance_status g' = ''NON-COMPLIANT'') \<or>
             (risk_level g' = ''MEDIUM'' \<and> compliance_status g' = ''PARTIALLY COMPLIANT'')"
    if "has_static g'"
  proof -
    from that have "new \<noteq> []" by (auto simp: has_static_def iss list_ex_iff)
    with status show ?thesis by (auto simp: spec_static_status_def split: if_splits)
  qed
  show ?thesis
    unfolding status_inv_def using no_secret err any by (auto simp: risk_rank_def)
qed

lemma gitleaks_issue_type:
  "gitleaks_issue rp f = Inr i \<Longrightarrow> issue_type i = ''Secret/PII Exposure'' \<and> severity i = JStr ''HIGH''"
  by (auto simp: gitleaks_issue_def bnd_def split: sum.splits)

lemma gitleaks_findings_Done:
  "gitleaks_findings rp xs g = Done g' \<Longrightarrow>
   \<exists>new. security_issues g' = security_issues g @ new \<and>
         list_all (\<lambda>i. issue_type i = ''Secret/PII Exposure'' \<and> severity i = JStr ''HIGH'') new \<and>
         (if new = [] then g' = g
          else risk_level g' = ''CRITICAL'' \<and> compliance_status g' = ''NON-COMPLIANT'')"
proof (induction xs arbitrary: g)
  case Nil
  then show ?case by simp
next
  case (Cons x xs)
  from Cons.prems obtain i where i: "gitleaks_issue rp x = Inr i" and
    rest: "gitleaks_findings rp xs
             (g\<lparr>security_issues := security_issues g @ [i], risk_level := ''CRITICAL'',
                compliance_status := ''NON-COMPLIANT''\<rparr>) = Done g'"
    by (cases "gitleaks_issue rp x") simp_all
  from Cons.IH [OF rest] obtain new where
    new: "security_issues g' = (security_issues g @ [i]) @ new"
      "list_all (\<lambda>i. issue_type i = ''Secret/PII Exposure'' \<and> severity i = JStr ''HIGH'') new"
    by auto
  from gitleaks_findings_critical [OF rest]
  have crit: "risk_level g' = ''CRITICAL'' \<and> compliance_status g' = ''NON-COMPLIANT''" by simp
  show ?case
    by (rule exI [of _ "i # new"]) (use new crit gitleaks_issue_type [OF i] in simp)
qed

lemma load_gitleaks_results_Done:
  assumes "load_gitleaks_results rp fs filepath g = Done g'"
  shows "\<exists>new. security_issues g' = security_issues g @ new \<and>
           list_all (\<lambda>i. issue_type i = ''Secret/PII Exposure'' \<and> severity i = JStr ''HIGH'') new \<and>
           (if new = []
            then risk_level g' = risk_level g \<and> compliance_status g' = compliance_status g
            else risk_level g' = ''CRITICAL'' \<and> compliance_status g' = ''NON-COMPLIANT'')"
proof (cases "fs filepath")
  case NotFound
  with assms have "g' = print_line (''GitLeaks results file not found: '' @ filepath) g"
    by (simp add: load_gitleaks_results_def)
  then show ?thesis by (intro exI [of _ "[]"]) simp
next
  case BadJSON
  with assms have "g' = print_line (''Error parsing GitLeaks results: '' @ filepath) g"
    by (simp add: load_gitleaks_results_def)
  then show ?thesis by (intro exI [of _ "[]"]) simp
next
  case (Parsed data)
  let ?body = "case py_iter data of Inl e \<Rightarrow> Raised e g
               | Inr findings \<Rightarrow> gitleaks_findings rp findings g"
  from assms Parsed have c: "catch_KeyError (''Error parsing GitLeaks results: '' @ filepath) ?body = Done g'"
    by (simp add: load_gitleaks_results_def)
  have "?body = Done g'"
  proof (cases ?body)
    case (Done g'')
    with c show ?thesis by (simp add: catch_KeyError_def)
  next
    case (Raised e g'')
    then have "e \<noteq> KeyError"
      by (auto simp: py_iter_def split: sum.splits json.splits dest: gitleaks_findings_error)
    with c Raised show ?thesis by (simp add: catch_KeyError_def)
  qed
  then obtain findings where "gitleaks_findings rp findings g = Done g'"
    by (cases "py_iter data") simp_all
  from gitleaks_findings_Done [OF this] show ?thesis
    by (auto split: if_splits)
qed

lemma gitleaks_status_inv:
  assumes "status_inv g" and "load_gitleaks_results rp fs filepath g = Done g'"
  shows "status_inv g'"
proof -
  from load_gitleaks_results_Done [OF assms(2)] obtain new where
    issues: "security_issues g' = security_issues g @ new" and
    types: "list_all (\<lambda>i. issue_type i = ''Secret/PII Exposure'' \<and> severity i = JStr ''HIGH'') new" and
    status: "if new = []
            then risk_level g' = risk_level g \<and> compliance_status g' = compliance_status g
            else risk_level g' = ''CRITICAL'' \<and> compliance_status g' = ''NON-COMPLIANT''"
    by blast
  show ?thesis
  proof (cases "new = []")
    case True
    with issues status assms(1) show ?thesis
      by (simp add: status_inv_def has_secret_def has_static_def has_static_error_def)
  next
    case False
    with status show ?thesis
      by (simp add: status_inv_def risk_rank_def)
  qed
qed

lemma vulnerability_matches_state:
  "\<exists>new. security_issues (state_of (vulnerability_matches rp ms g)) = security_issues g @ new \<and>
         list_all (\<lambda>i. issue_type i = ''Dependency Vulnerability'') new"
proof (induction ms arbitrary: g)
  case Nil
  show ?case by simp
next
  case (Cons m ms)
  show ?case
  proof (cases "dict_get2 m ''vulnerability'' (JObj []) ''severity'' (JStr ''UNKNOWN'')")
    case (Inl e)
    then show ?thesis by simp
  next
    case (Inr sev)
    show ?thesis
    proof (cases "high_or_critical sev")
      case True
      show ?thesis
      proof (cases "vulnerability_issue rp m sev")
        case (Inl e)
        with Inr True show ?thesis by simp
      next
        case i: (Inr i)
        from Cons.IH [of "g\<lparr>security_issues := security_issues g @ [i]\<rparr>"] obtain new where
          new: "security_issues (state_of (vulnerability_matches rp ms
                   (g\<lparr>security_issues := security_issues g @ [i]\<rparr>))) =
                (security_issues g @ [i]) @ new"
            "list_all (\<lambda>i. issue_type i = ''Dependency Vulnerability'') new"
          by auto
        show ?thesis
          by (rule exI [of _ "i # new"])
             (use Inr True i new vulnerability_issue_fields(1) [OF i] in simp)
      qed
    next
      case False
      with Inr Cons.IH [of g] show ?thesis by simp
    qed
  qed
qed

lemma load_vulnerability_scan_state:
  "\<exists>new. security_issues (state_of (load_vulnerability_scan rp fs filepath g)) =
           security_issues g @ new \<and>
         list_all (\<lambda>i. issue_type i = ''Dependency Vulnerability'') new"
proof (cases "fs filepath")
  case (Parsed data)
  let ?body = "case bnd (dict_get data ''matches'' (JList [])) py_iter of
                 Inl e \<Rightarrow> Raised e g
               | Inr matches \<Rightarrow> vulnerability_matches rp matches g"
  have body: "\<exists>new. security_issues (state_of ?body) = security_issues g @ new \<and>
         list_all (\<lambda>i. issue_type i = ''Dependency Vulnerability'') new"
  proof (cases "bnd (dict_get data ''matches'' (JList [])) py_iter")
    case (Inl e)
    then show ?thesis by simp
  next
    case (Inr matches)
    with vulnerability_matches_state [of rp matches g] show ?thesis by simp
  qed
  from state_of_catch_KeyError [of "''Error parsing vulnerability results: '' @ filepath" ?body]
  have "security_issues (state_of (load_vulnerability_scan rp fs filepath g)) =
        security_issues (state_of ?body)"
    using Parsed by (auto simp: load_vulnerability_scan_def)
  with body show ?thesis by simp
qed (simp_all add: load_vulnerability_scan_def)

lemma vulnerability_status_inv:
  assumes "status_inv g"
  shows "status_inv (state_of (load_vulnerability_scan rp fs filepath g))"
proof -
  from load_vulnerability_scan_state [of rp fs filepath g] obtain new where
    issues: "security_issues (state_of (load_vulnerability_scan rp fs filepath g)) =
               security_issues g @ new" and
    types: "list_all (\<lambda>i. issue_type i = ''Dependency Vulnerability'') new"
    by blast
  from types have none:
    "\<not> list_ex (\<lambda>i. issue_type i = ''Secret/PII Exposure'') new"
    "\<not> list_ex (\<lambda>i. issue_type i = ''GDPR Compliance Violation'') new"
    "\<not> list_ex (\<lambda>i. issue_type i = ''GDPR Compliance Violation'' \<and> severity i = JStr ''ERROR'') new"
    by (auto simp: list_ex_iff list_all_iff)
  from load_vulnerability_scan_keeps_status [of rp fs filepath g] assms issues none
  show ?thesis
    by (simp add: status_inv_def has_secret_def has_static_def has_static_error_def)
qed

lemma run_loaders_status_inv:
  assumes "run_loaders rp fs (init now) = Done g"
  shows "status_inv g"
proof -
  from assms obtain g1 g2 where
    sg: "load_semgrep_results fs ''security-reports/pii-scan.json'' (init now) = Done g1" and
    gl: "load_gitleaks_results rp fs ''security-reports/gitleaks-report.json'' g1 = Done g2" and
    vu: "load_vulnerability_scan rp fs ''security-reports/vulnerabilities.json'' g2 = Done g"
    by (auto simp: run_loaders_def split: outcome.splits)
  have "security_issues (init now) = []" by (simp add: init_def)
  from semgrep_status_inv [OF this sg] have "status_inv g1" .
  from gitleaks_status_inv [OF this gl] have "status_inv g2" .
  from vulnerability_status_inv [OF this, of rp fs "''security-reports/vulnerabilities.json''"] vu
  show ?thesis by simp
qed

lemma run_files_vulnerable:
  "run_loaders no_repr files_vulnerable (init ''2024-01-01 00:00:00 UTC'') =
     Done (loaded files_vulnerable)"
  unfolding loaded_def by code_simp

text \<open>
  The renderer: it succeeds when every severity is a string, and the report then holds
  the block of each issue and the four tiles. The loaders, on files of the documented
  shapes, complete and append issues with string severities only.
\<close>

lemma sublist_inside: "sublist xs ys \<Longrightarrow> sublist xs (ps @ ys @ ss)"
proof -
  assume "sublist xs ys"
  then obtain p s where "ys = p @ xs @ s" by (auto simp: sublist_def)
  then have "ps @ ys @ ss = (ps @ p) @ xs @ (s @ ss)" by simp
  then show ?thesis unfolding sublist_def by blast
qed

lemma render_issue_text:
  assumes "severity i = JStr s"
  shows "render_issue rp i =
           Inr (tpl_issue @ py_str rp (message i)
                @ tpl_issue_severity @ lower s @ [CHR 0x22, CHR ''>''] @ s
                @ tpl_issue_severity_end
                @ (if mentions_GDPR i then tpl_gdpr_badge else [])
                @ tpl_issue_file @ py_str rp (issue_file i)
                @ '' (Line '' @ py_str rp (line i)
                @ tpl_issue_impact @ business_impact i
                @ tpl_issue_action @ remediation i
                @ tpl_issue_end)"
  using assms by (simp add: render_issue_def jinja_lower_def py_str_def)


lemma render_issues_total:
  "list_all text_severity issues \<Longrightarrow> \<exists>body. render_issues rp issues = Inr body"
proof (induction issues)
  case Nil
  show ?case by simp
next
  case (Cons i issues)
  from Cons.prems obtain s where "severity i = JStr s"
    by (cases "severity i") (simp_all add: text_severity_def)
  from render_issue_text [OF this] obtain block where "render_issue rp i = Inr block" by blast
  moreover from Cons obtain body where "render_issues rp issues = Inr body" by auto
  ultimately show ?case by simp
qed


lemma generate_html_report_total:
  assumes "list_all text_severity (security_issues g)"
  shows "\<exists>html. generate_html_report rp g = Inr html"
proof -
  from render_issues_total [OF assms] obtain body where
    "render_issues rp (security_issues g) = Inr body" by blast
  then show ?thesis by (simp add: generate_html_report_def render_findings_def)
qed


lemma generate_recommendations_issues [simp]:
  "security_issues (generate_recommendations g) = security_issues g"
  by (simp add: generate_recommendations_def Let_def)

lemma generate_recommendations_status [simp]:
  "risk_level (generate_recommendations g) = risk_level g"
  "compliance_status (generate_recommendations g) = compliance_status g"
  "stdout (generate_recommendations g) = stdout g"
  by (simp_all add: generate_recommendations_def Let_def)

lemma main_Done:
  assumes "run_loaders rp fs (init now) = Done g"
    and "generate_html_report rp (generate_recommendations g) = Inr html"
  shows "main now rp fs =
           \<lparr>exit_code = 0, report_written = Some html,
            printed = stdout g @
              [''Executive security report generated: security-reports/executive-report.html'',
               ''Report summary: '' @ compliance_status g @ '' - '' @ risk_level g @ '' risk'']\<rparr>"
  using assms by (simp add: main_def Let_def)














lemma report_of_loaded:
  assumes "run_loaders rp fs (init now) = Done g"
    and "list_all text_severity (security_issues g)"
  shows "generate_html_report rp (generate_recommendations g) = Inr (report_of (main now rp fs))"
proof -
  from assms(2) have "list_all text_severity (security_issues (generate_recommendations g))"
    by simp
  from generate_html_report_total [OF this, of rp] obtain html where
    html: "generate_html_report rp (generate_recommendations g) = Inr html" by blast
  from main_Done [OF assms(1) html] have "report_of (main now rp fs) = html"
    by (simp add: report_of_def)
  with html show ?thesis by simp
qed

lemma css_inside: "sublist xs css_status_classes \<Longrightarrow> sublist xs stylesheet"
  unfolding stylesheet_def by (rule sublist_inside)

lemma stylesheet_classes:
  "sublist ''.risk-low {'' stylesheet"
  "sublist ''.risk-medium {'' stylesheet"
  "sublist ''.risk-high {'' stylesheet"
  "sublist ''.risk-critical {'' stylesheet"
  "sublist ''.compliant {'' stylesheet"
  "sublist ''.non-compliant {'' stylesheet"
  "sublist ''.partially-compliant {'' stylesheet"
  by (rule css_inside, code_simp)+

lemma class_values:
  "risk_class ''LOW'' = ''risk-low''"
  "risk_class ''MEDIUM'' = ''risk-medium''"
  "risk_class ''HIGH'' = ''risk-high''"
  "risk_class ''CRITICAL'' = ''risk-critical''"
  "compliance_class ''COMPLIANT'' = ''compliant''"
  "compliance_class ''NON-COMPLIANT'' = ''non_compliant''"
  "compliance_class ''PARTIALLY COMPLIANT'' = ''partially compliant''"
  by code_simp+

lemma report_shows_tiles:
  assumes "generate_html_report rp g = Inr html"
  shows "sublist (risk_tile g @ tpl_compliance_tile @ compliance_tile g
                  @ tpl_issues_tile @ issues_tile g @ tpl_files_tile @ files_tile g) html"
proof -
  from assms obtain findings where
    html: "html = tpl_document @ stylesheet @ tpl_header @ scan_date g
            @ tpl_risk_tile @ risk_tile g
            @ tpl_compliance_tile @ compliance_tile g
            @ tpl_issues_tile @ issues_tile g
            @ tpl_files_tile @ files_tile g
            @ tpl_executive_summary @ render_assessment g
            @ tpl_summary_end @ findings
            @ tpl_recommendations @ render_recommendations (recommendations g)
            @ tpl_footer"
    by (cases "render_findings rp (security_issues g)") (auto simp: generate_html_report_def)
  let ?tiles = "risk_tile g @ tpl_compliance_tile @ compliance_tile g
                  @ tpl_issues_tile @ issues_tile g @ tpl_files_tile @ files_tile g"
  have "html = (tpl_document @ stylesheet @ tpl_header @ scan_date g @ tpl_risk_tile) @ ?tiles @
            (tpl_executive_summary @ render_assessment g
            @ tpl_summary_end @ findings
            @ tpl_recommendations @ render_recommendations (recommendations g)
            @ tpl_footer)"
    using html by simp
  then show ?thesis by (simp only: sublist_appendI)
qed

lemma run_files_warning:
  "run_loaders no_repr files_warning (init ''2024-01-01 00:00:00 UTC'') = Done (loaded files_warning)"
  unfolding loaded_def by code_simp

subsection \<open>The secret-detection loader overrides the status\<close>

text \<open>
  Claim C1. In the order of \<open>main\<close> (static analysis, secret detection, vulnerabilities),
  when the secret-detection file parses to a non-empty list and the three loaders run to
  completion, the final state has risk level CRITICAL and compliance status
  NON-COMPLIANT, whatever the state was before and whatever the static-analysis loader
  set.
\<close>

theorem secrets_force_critical:
  assumes "fs ''security-reports/gitleaks-report.json'' = Parsed (JList (f # rest))"
    and "run_loaders rp fs g0 = Done g"
  shows "risk_level g = ''CRITICAL'' \<and> compliance_status g = ''NON-COMPLIANT''"
proof -
  from assms(2) obtain g1 g2 where
    gl: "load_gitleaks_results rp fs ''security-reports/gitleaks-report.json'' g1 = Done g2" and
    vu: "load_vulnerability_scan rp fs ''security-reports/vulnerabilities.json'' g2 = Done g"
    by (auto simp: run_loaders_def split: outcome.splits)
  from load_gitleaks_results_critical [OF assms(1) gl]
  have "risk_level g2 = ''CRITICAL'' \<and> compliance_status g2 = ''NON-COMPLIANT''" .
  moreover from load_vulnerability_scan_keeps_status [of rp fs "''security-reports/vulnerabilities.json''" g2] vu
  have "risk_level g = risk_level g2 \<and> compliance_status g = compliance_status g2" by simp
  ultimately show ?thesis by simp
qed

theorem secrets_force_critical_witness:
  "risk_level (loaded files_secret) = ''CRITICAL'' \<and>
   compliance_status (loaded files_secret) = ''NON-COMPLIANT''"
proof -
  have h: "files_secret ''security-reports/gitleaks-report.json'' =
       Parsed (JList (JObj [(''Description'', JStr ''AWS key''), (''File'', JStr ''app.py''),
                             (''StartLine'', JInt 7), (''RuleID'', JStr ''aws-access-token'')] # []))"
    by (simp add: files_secret_def directory_def gitleaks_one_def)
  from secrets_force_critical [OF h run_files_secret] show ?thesis .
qed

subsection \<open>What the status reflects\<close>

text \<open>
  Claim C2 says that, in every reachable state, an issue of severity CRITICAL (HIGH)
  forces a risk level of at least CRITICAL (HIGH). The vulnerability loader appends
  such issues without touching the status: with a vulnerability file alone, the run
  ends with issues of severity HIGH and CRITICAL, risk level LOW and status COMPLIANT.
\<close>

theorem worst_finding_counterexample:
  "run_loaders no_repr files_vulnerable (init ''2024-01-01 00:00:00 UTC'') =
     Done (loaded files_vulnerable) \<and>
   map severity (security_issues (loaded files_vulnerable)) = [JStr ''HIGH'', JStr ''CRITICAL''] \<and>
   risk_level (loaded files_vulnerable) = ''LOW'' \<and>
   compliance_status (loaded files_vulnerable) = ''COMPLIANT'' \<and>
   risk_rank (risk_level (loaded files_vulnerable)) < risk_rank ''HIGH''"
proof -
  have "map severity (security_issues (loaded files_vulnerable)) = [JStr ''HIGH'', JStr ''CRITICAL'']"
    unfolding loaded_def by code_simp
  moreover have "risk_level (loaded files_vulnerable) = ''LOW''"
    unfolding loaded_def by code_simp
  moreover have "compliance_status (loaded files_vulnerable) = ''COMPLIANT''"
    unfolding loaded_def by code_simp
  moreover have "risk_rank ''LOW'' < risk_rank ''HIGH''"
    by (simp add: risk_rank_def)
  ultimately show ?thesis using run_files_vulnerable by simp
qed

text \<open>
  Claim C2, amended. After the three loaders have run in the order of \<open>main\<close> on a
  fresh generator, the status reflects the issues of the static-analysis and
  secret-detection loaders: an issue of type "Secret/PII Exposure" gives CRITICAL and
  NON-COMPLIANT; an issue of type "GDPR Compliance Violation" with severity ERROR gives
  a risk level of at least HIGH and NON-COMPLIANT; any issue of type "GDPR Compliance
  Violation" gives a risk level of at least MEDIUM and a status other than COMPLIANT.
  The issues of the vulnerability loader do not count.
\<close>

theorem status_follows_static_and_secret_findings:
  assumes "run_loaders rp fs (init now) = Done g"
  shows "((\<exists>i\<in>set (security_issues g). issue_type i = ''Secret/PII Exposure'') \<longrightarrow>
            risk_level g = ''CRITICAL'' \<and> compliance_status g = ''NON-COMPLIANT'') \<and>
         ((\<exists>i\<in>set (security_issues g).
              issue_type i = ''GDPR Compliance Violation'' \<and> severity i = JStr ''ERROR'') \<longrightarrow>
            risk_rank ''HIGH'' \<le> risk_rank (risk_level g) \<and>
            compliance_status g = ''NON-COMPLIANT'') \<and>
         ((\<exists>i\<in>set (security_issues g). issue_type i = ''GDPR Compliance Violation'') \<longrightarrow>
            risk_rank ''MEDIUM'' \<le> risk_rank (risk_level g) \<and>
            compliance_status g \<noteq> ''COMPLIANT'')"
  using run_loaders_status_inv [OF assms]
  by (simp add: status_inv_def has_secret_def has_static_def has_static_error_def list_ex_iff)

theorem status_follows_static_and_secret_findings_witness:
  "risk_rank ''HIGH'' \<le> risk_rank (risk_level (loaded files_secret)) \<and>
   risk_level (loaded files_secret) = ''CRITICAL'' \<and>
   compliance_status (loaded files_secret) = ''NON-COMPLIANT''"
proof -
  have h1: "\<exists>i\<in>set (security_issues (loaded files_secret)). issue_type i = ''Secret/PII Exposure''"
    unfolding loaded_def by code_simp
  have h2: "\<exists>i\<in>set (security_issues (loaded files_secret)).
              issue_type i = ''GDPR Compliance Violation'' \<and> severity i = JStr ''ERROR''"
    unfolding loaded_def by code_simp
  from status_follows_static_and_secret_findings [OF run_files_secret] h1 h2
  show ?thesis by blast
qed

subsection \<open>The static-analysis loader sets the status\<close>

text \<open>
  Claim C5. For a static-analysis file of the documented shape, the loader completes
  and leaves the status that the rule of the spec gives: LOW and COMPLIANT when there
  is no result, HIGH and NON-COMPLIANT when some result has severity ERROR, MEDIUM and
  PARTIALLY COMPLIANT otherwise.
\<close>

theorem semgrep_classification:
  assumes "fs filepath = Parsed data" and "wf_semgrep data"
  shows "\<exists>g'. load_semgrep_results fs filepath g = Done g' \<and>
           (risk_level g', compliance_status g') =
             (if semgrep_results data = [] then (''LOW'', ''COMPLIANT'')
              else if list_ex (\<lambda>r. result_severity r = JStr ''ERROR'') (semgrep_results data)
                then (''HIGH'', ''NON-COMPLIANT'')
              else (''MEDIUM'', ''PARTIALLY COMPLIANT''))"
proof -
  from wf_semgrep_Done [of fs filepath data g] assms obtain g' where
    fin: "load_semgrep_results fs filepath g = Done g'" by blast
  from load_semgrep_results_Done [of fs filepath data g g'] assms(1) fin obtain rj rs new where
    rj: "dict_get data ''results'' (JList []) = Inr rj" and rs: "py_iter rj = Inr rs" and
    built: "list_all2 (\<lambda>r i. semgrep_issue r = Inr i) rs new" and
    status: "(risk_level g', compliance_status g') = spec_static_status (map severity new)"
    by blast
  from assms(2) rj rs have res: "semgrep_results data = rs"
    by (auto simp: wf_semgrep_def semgrep_results_def py_iter_def split: sum.splits json.splits)
  have "map severity new = map result_severity (semgrep_results data)"
    using semgrep_issues_severities [OF built] res by simp
  with status have "(risk_level g', compliance_status g') =
      spec_static_status (map result_severity (semgrep_results data))" by simp
  also have "\<dots> = (if semgrep_results data = [] then (''LOW'', ''COMPLIANT'')
              else if list_ex (\<lambda>r. result_severity r = JStr ''ERROR'') (semgrep_results data)
                then (''HIGH'', ''NON-COMPLIANT'')
              else (''MEDIUM'', ''PARTIALLY COMPLIANT''))"
    by (force simp: spec_static_status_def list_ex_iff)
  finally show ?thesis using fin by blast
qed

theorem semgrep_classification_witness:
  "risk_level (state_of (load_semgrep_results files_secret ''security-reports/pii-scan.json''
      (init ''2024-01-01 00:00:00 UTC''))) = ''HIGH'' \<and>
   compliance_status (state_of (load_semgrep_results files_secret
      ''security-reports/pii-scan.json'' (init ''2024-01-01 00:00:00 UTC''))) = ''NON-COMPLIANT''"
proof -
  have h1: "files_secret ''security-reports/pii-scan.json'' = Parsed pii_scan_error"
    by (simp add: files_secret_def directory_def)
  have h2: "wf_semgrep pii_scan_error"
    by code_simp
  have ne: "semgrep_results pii_scan_error \<noteq> []"
    by code_simp
  have err: "list_ex (\<lambda>r. result_severity r = JStr ''ERROR'') (semgrep_results pii_scan_error)"
    by code_simp
  from semgrep_classification [of files_secret "''security-reports/pii-scan.json''"
      pii_scan_error "init ''2024-01-01 00:00:00 UTC''"] h1 h2 ne err
  show ?thesis by auto
qed

subsection \<open>The vulnerability loader leaves the status alone\<close>

text \<open>
  Claim C6. For every input file and every starting state, the vulnerability loader
  leaves \<open>risk_level\<close> and \<open>compliance_status\<close> as they were, whether it completes,
  reports a caught error or raises, and whatever issues it appends.
\<close>

theorem vulnerability_scan_frame:
  "risk_level (state_of (load_vulnerability_scan rp fs filepath g)) = risk_level g \<and>
   compliance_status (state_of (load_vulnerability_scan rp fs filepath g)) = compliance_status g"
  by (rule load_vulnerability_scan_keeps_status)

subsection \<open>The vulnerability loader keeps HIGH and CRITICAL matches only\<close>



subsection \<open>The recommender\<close>

text \<open>
  Claim C9. When at least one issue has severity HIGH or CRITICAL and at least one
  issue's business impact contains "GDPR", the recommender appends both blocks to the
  recommendations list: the three high-severity recommendations first, the first of
  them naming the number of HIGH or CRITICAL issues, then the three GDPR
  recommendations.
\<close>

theorem both_blocks_in_order:
  assumes "\<exists>i\<in>set (security_issues g). high_or_critical (severity i)"
    and "\<exists>i\<in>set (security_issues g). mentions_GDPR i"
  shows "recommendations (generate_recommendations g) =
           recommendations g @
           [''IMMEDIATE ACTION: Address ''
              @ show_nat (length (filter (\<lambda>i. high_or_critical (severity i)) (security_issues g)))
              @ '' high/critical severity issues'',
            ''Implement mandatory security training for development team'',
            ''Review and strengthen code review processes''] @
           [''Schedule legal review of data processing practices'',
            ''Conduct GDPR compliance training for technical teams'',
            ''Implement Data Protection Impact Assessment (DPIA) process'']"
proof -
  from assms(1) have ne: "security_issues g \<noteq> []" by auto
  from assms(1) have "filter (\<lambda>i. high_or_critical (severity i)) (security_issues g) \<noteq> []"
    by (simp add: filter_empty_conv)
  then have pos: "0 < length (filter (\<lambda>i. high_or_critical (severity i)) (security_issues g))"
    by simp
  from assms(2) have ex: "list_ex mentions_GDPR (security_issues g)"
    by (simp add: list_ex_iff)
  show ?thesis
    using ne pos ex
    by (simp add: generate_recommendations_def Let_def high_severity_block_def gdpr_block_def)
qed

theorem both_blocks_in_order_witness:
  "recommendations (generate_recommendations (loaded files_secret)) =
     [''IMMEDIATE ACTION: Address 1 high/critical severity issues'',
      ''Implement mandatory security training for development team'',
      ''Review and strengthen code review processes'',
      ''Schedule legal review of data processing practices'',
      ''Conduct GDPR compliance training for technical teams'',
      ''Implement Data Protection Impact Assessment (DPIA) process'']"
proof -
  have h1: "\<exists>i\<in>set (security_issues (loaded files_secret)). high_or_critical (severity i)"
    unfolding loaded_def by code_simp
  have h2: "\<exists>i\<in>set (security_issues (loaded files_secret)). mentions_GDPR i"
    unfolding loaded_def by code_simp
  have r: "recommendations (loaded files_secret) = []"
    unfolding loaded_def by code_simp
  have n: "show_nat (length (filter (\<lambda>i. high_or_critical (severity i))
             (security_issues (loaded files_secret)))) = ''1''"
    unfolding loaded_def by code_simp
  from both_blocks_in_order [OF h1 h2] show ?thesis
    by (simp add: r n)
qed



subsection \<open>When the run completes\<close>




subsection \<open>Exceptions that leave a loader\<close>

text \<open>
  A KeyError leaves the static-analysis loader, whose handlers do not name it, while
  the vulnerability loader catches it and reports it. An empty list of fix versions
  raises IndexError, which no handler names. Both end the run.
\<close>

lemma static_loader_lets_KeyError_out:
  "load_semgrep_results (directory (Parsed pii_scan_missing_key) NotFound NotFound)
     ''security-reports/pii-scan.json'' (init ''2024-01-01 00:00:00 UTC'') =
   Raised KeyError (init ''2024-01-01 00:00:00 UTC'')"
  by code_simp

lemma vulnerability_loader_catches_KeyError:
  "load_vulnerability_scan no_repr (directory NotFound NotFound (Parsed vulnerabilities_versions_object))
     ''security-reports/vulnerabilities.json'' (init ''2024-01-01 00:00:00 UTC'') =
   Done (print_line ''Error parsing vulnerability results: security-reports/vulnerabilities.json''
           (init ''2024-01-01 00:00:00 UTC''))"
  by code_simp

lemma empty_versions_raise_IndexError:
  "load_vulnerability_scan no_repr (directory NotFound NotFound (Parsed vulnerabilities_not_fixed))
     ''security-reports/vulnerabilities.json'' (init ''2024-01-01 00:00:00 UTC'') =
   Raised IndexError (init ''2024-01-01 00:00:00 UTC'')"
  by code_simp

lemma uncaught_exceptions_end_run:
  "exit_code (main ''2024-01-01 00:00:00 UTC'' no_repr
     (directory (Parsed pii_scan_missing_key) NotFound NotFound)) = 1"
  "exit_code (main ''2024-01-01 00:00:00 UTC'' no_repr
     (directory NotFound NotFound (Parsed vulnerabilities_not_fixed))) = 1"
  by code_simp+

subsection \<open>Scanner text in the report\<close>




subsection \<open>The classes of the summary tiles\<close>

text \<open>
  Claim C8 says that each of the four summary tiles carries a class made from its
  value in lower case with dashes, NON-COMPLIANT giving "non-compliant". After a run
  that ends NON-COMPLIANT with two issues, the class of the compliance tile is
  "non_compliant", and the issue-count tile carries the class "value" alone.
\<close>

theorem summary_tile_class_counterexample:
  \<open>compliance_status (loaded files_secret) = ''NON-COMPLIANT'' \<and>
   compliance_tile (loaded files_secret) =
     ''<div class="value non_compliant">NON-COMPLIANT</div>'' \<and>
   spec_css_class ''NON-COMPLIANT'' = ''non-compliant'' \<and>
   length (security_issues (loaded files_secret)) = 2 \<and>
   issues_tile (loaded files_secret) = ''<div class="value">2</div>''\<close>
proof -
  have c: "compliance_status (loaded files_secret) = ''NON-COMPLIANT''"
    unfolding loaded_def by code_simp
  have n: "length (security_issues (loaded files_secret)) = 2"
    unfolding loaded_def by code_simp
  have s: "show_nat 2 = ''2''" by code_simp
  have sp: "spec_css_class ''NON-COMPLIANT'' = ''non-compliant''" by code_simp
  show ?thesis
    using c n s sp class_values(6)
    by (simp add: compliance_tile_def issues_tile_def value_div_def)
qed

text \<open>
  Claim C8, amended. In the rendered report the four tiles stand in the order risk
  level, compliance status, issue count, files scanned. The risk tile has the class
  "risk-" followed by the risk level in lower case, and for LOW, MEDIUM, HIGH and
  CRITICAL the stylesheet defines that class. The compliance tile has a class computed
  from the compliance status, which for COMPLIANT is "compliant", a class of the
  stylesheet. The issue-count and files-scanned tiles have the fixed class "value",
  whatever their value.
\<close>

theorem summary_tile_classes:
  assumes "generate_html_report rp g = Inr html"
  shows \<open>sublist (risk_tile g @ tpl_compliance_tile @ compliance_tile g
                  @ tpl_issues_tile @ issues_tile g @ tpl_files_tile @ files_tile g) html \<and>
         risk_tile g = ''<div class="value risk-'' @ lower (risk_level g) @ ''">''
                         @ risk_level g @ ''</div>'' \<and>
         lower ''LOW'' = ''low'' \<and> sublist ''.risk-low {'' stylesheet \<and>
         lower ''MEDIUM'' = ''medium'' \<and> sublist ''.risk-medium {'' stylesheet \<and>
         lower ''HIGH'' = ''high'' \<and> sublist ''.risk-high {'' stylesheet \<and>
         lower ''CRITICAL'' = ''critical'' \<and> sublist ''.risk-critical {'' stylesheet \<and>
         compliance_tile g = ''<div class="value '' @ compliance_class (compliance_status g)
                               @ ''">'' @ compliance_status g @ ''</div>'' \<and>
         compliance_class ''COMPLIANT'' = ''compliant'' \<and> sublist ''.compliant {'' stylesheet \<and>
         issues_tile g = ''<div class="value">'' @ show_nat (length (security_issues g))
                           @ ''</div>'' \<and>
         files_tile g = ''<div class="value">'' @ show_nat (total_files_scanned g)
                          @ ''</div>''\<close>
proof -
  have low: "lower ''LOW'' = ''low''" "lower ''MEDIUM'' = ''medium''" "lower ''HIGH'' = ''high''"
    "lower ''CRITICAL'' = ''critical''"
    by code_simp+
  have tiles:
    \<open>risk_tile g = ''<div class="value risk-'' @ lower (risk_level g) @ ''">''
                         @ risk_level g @ ''</div>''\<close>
    \<open>compliance_tile g = ''<div class="value '' @ compliance_class (compliance_status g)
                               @ ''">'' @ compliance_status g @ ''</div>''\<close>
    \<open>issues_tile g = ''<div class="value">'' @ show_nat (length (security_issues g))
                           @ ''</div>''\<close>
    \<open>files_tile g = ''<div class="value">'' @ show_nat (total_files_scanned g)
                          @ ''</div>''\<close>
    by (simp_all add: risk_tile_def compliance_tile_def issues_tile_def files_tile_def
          value_div_def risk_class_def)
  from report_shows_tiles [OF assms] low tiles stylesheet_classes(1-5) class_values(5)
  show ?thesis by blast
qed

theorem summary_tile_classes_witness:
  \<open>risk_tile (generate_recommendations (loaded files_warning)) =
     ''<div class="value risk-medium">MEDIUM</div>'' \<and>
   issues_tile (generate_recommendations (loaded files_warning)) = ''<div class="value">1</div>'' \<and>
   sublist (risk_tile (generate_recommendations (loaded files_warning)) @ tpl_compliance_tile
              @ compliance_tile (generate_recommendations (loaded files_warning))
              @ tpl_issues_tile @ issues_tile (generate_recommendations (loaded files_warning))
              @ tpl_files_tile @ files_tile (generate_recommendations (loaded files_warning)))
     (report_of (main ''2024-01-01 00:00:00 UTC'' no_repr files_warning))\<close>
proof -
  have sev_text: "list_all text_severity (security_issues (loaded files_warning))"
    unfolding loaded_def by code_simp
  have r: "risk_level (loaded files_warning) = ''MEDIUM''"
    unfolding loaded_def by code_simp
  have n: "show_nat (length (security_issues (loaded files_warning))) = ''1''"
    unfolding loaded_def by code_simp
  have low: "lower ''MEDIUM'' = ''medium''" by code_simp
  note t = summary_tile_classes [OF report_of_loaded [OF run_files_warning sev_text]]
  from t have a:
    "sublist (risk_tile (generate_recommendations (loaded files_warning)) @ tpl_compliance_tile
              @ compliance_tile (generate_recommendations (loaded files_warning))
              @ tpl_issues_tile @ issues_tile (generate_recommendations (loaded files_warning))
              @ tpl_files_tile @ files_tile (generate_recommendations (loaded files_warning)))
     (report_of (main ''2024-01-01 00:00:00 UTC'' no_repr files_warning))"
    by (rule conjunct1)
  from t have \<open>risk_tile (generate_recommendations (loaded files_warning)) =
      ''<div class="value risk-'' @ lower (risk_level (generate_recommendations (loaded files_warning)))
        @ ''">'' @ risk_level (generate_recommendations (loaded files_warning)) @ ''</div>''\<close>
    by blast
  with r low have b: \<open>risk_tile (generate_recommendations (loaded files_warning)) =
     ''<div class="value risk-medium">MEDIUM</div>''\<close>
    by simp
  from t have \<open>issues_tile (generate_recommendations (loaded files_warning)) =
      ''<div class="value">''
        @ show_nat (length (security_issues (generate_recommendations (loaded files_warning))))
        @ ''</div>''\<close>
    by blast
  with n have c: \<open>issues_tile (generate_recommendations (loaded files_warning)) =
      ''<div class="value">1</div>''\<close>
    by simp
  from a b c show ?thesis by blast
qed

end
